theory Spec2Isabelle
  imports Complex_Main "HOL-Library.Char_ord" "HOL-Library.List_Lexorder"
begin

section \<open>Python strings (ASCII)\<close>

text \<open>
  The bot's texts are Python \<open>str\<close> values. The embedding covers ASCII text: a
  \<open>string\<close> is the list of its characters, and the string methods below are the
  Python ones restricted to code points below 128 (\<open>ascii\<close>). Outside ASCII Python's
  \<open>upper\<close> and \<open>strip\<close> follow the Unicode tables, which are not modelled.
\<close>

definition ascii :: "string \<Rightarrow> bool" where
  "ascii s = list_all (\<lambda>c. (of_char c :: nat) < 128) s"

definition is_space :: "char \<Rightarrow> bool" where
  \<comment> \<open>\<open>str.isspace\<close> on ASCII: TAB, LF, VT, FF, CR, FS, GS, RS, US and the blank.\<close>
  "is_space c = ((of_char c :: nat) \<in> {9, 10, 11, 12, 13, 28, 29, 30, 31, 32})"

definition strip :: "string \<Rightarrow> string" where
  \<comment> \<open>\<open>s.strip()\<close>\<close>
  "strip s = rev (dropWhile is_space (rev (dropWhile is_space s)))"

definition is_c_space :: "char \<Rightarrow> bool" where
  \<comment> \<open>the white space that \<open>float\<close> and \<open>int\<close> skip around an ASCII numeral: TAB, LF,
      VT, FF, CR and the blank, without FS, GS, RS and US\<close>
  "is_c_space c = ((of_char c :: nat) \<in> {9, 10, 11, 12, 13, 32})"

definition c_strip :: "string \<Rightarrow> string" where
  "c_strip s = rev (dropWhile is_c_space (rev (dropWhile is_c_space s)))"

definition is_lower :: "char \<Rightarrow> bool" where
  "is_lower c = (97 \<le> (of_char c :: nat) \<and> (of_char c :: nat) \<le> 122)"

definition is_upper :: "char \<Rightarrow> bool" where
  "is_upper c = (65 \<le> (of_char c :: nat) \<and> (of_char c :: nat) \<le> 90)"

definition is_alpha :: "char \<Rightarrow> bool" where
  "is_alpha c = (is_lower c \<or> is_upper c)"

definition is_digit :: "char \<Rightarrow> bool" where
  "is_digit c = (48 \<le> (of_char c :: nat) \<and> (of_char c :: nat) \<le> 57)"

definition upper_char :: "char \<Rightarrow> char" where
  "upper_char c = (if is_lower c then char_of ((of_char c :: nat) - 32) else c)"

definition lower_char :: "char \<Rightarrow> char" where
  "lower_char c = (if is_upper c then char_of ((of_char c :: nat) + 32) else c)"

definition upper :: "string \<Rightarrow> string" where
  \<comment> \<open>\<open>s.upper()\<close>\<close>
  "upper s = map upper_char s"

definition lower :: "string \<Rightarrow> string" where
  \<comment> \<open>\<open>s.lower()\<close>\<close>
  "lower s = map lower_char s"

fun split_on :: "char \<Rightarrow> string \<Rightarrow> string list" where
  \<comment> \<open>\<open>s.split(sep)\<close> for a one-character separator: never empty, keeps empty fields.\<close>
  "split_on sep [] = [[]]"
| "split_on sep (c # cs) =
     (if c = sep then [] # split_on sep cs
      else (case split_on sep cs of
              [] \<Rightarrow> [[c]]
            | p # ps \<Rightarrow> (c # p) # ps))"

definition startswith :: "string \<Rightarrow> string \<Rightarrow> bool" where
  \<comment> \<open>\<open>s.startswith(p)\<close>\<close>
  "startswith s p = (take (length p) s = p)"

fun remove_all :: "string \<Rightarrow> string \<Rightarrow> string" where
  \<comment> \<open>\<open>s.replace(old, '')\<close> for a non-empty \<open>old\<close>: every occurrence, left to right.\<close>
  "remove_all old [] = []"
| "remove_all old (c # cs) =
     (if old \<noteq> [] \<and> take (length old) (c # cs) = old
      then remove_all old (drop (length old) (c # cs))
      else c # remove_all old cs)"

fun lookup :: "('k \<times> 'v) list \<Rightarrow> 'k \<Rightarrow> 'v option" where
  \<comment> \<open>a \<open>dict\<close> in insertion order, read by key\<close>
  "lookup [] k = None"
| "lookup ((k', v) # kvs) k = (if k' = k then Some v else lookup kvs k)"

section \<open>Python numbers\<close>

text \<open>
  A Python \<open>float\<close> is a binary64 value: a finite number (kept here by its exact
  rational value), a negative zero, an infinity or a NaN. \<open>Fin 0\<close> is \<open>+0.0\<close>.
  Rounding an exact result to the nearest binary64 value belongs to the Python runtime,
  not to the repository; every function that rounds takes the rounding
  \<open>rnd :: rat \<Rightarrow> pyfloat\<close> as a parameter (it may overflow to an infinity or
  underflow to a zero).
\<close>

datatype pyfloat = Fin rat | NegZero | PosInf | NegInf | NaN

definition is_zero :: "pyfloat \<Rightarrow> bool" where
  "is_zero x = (x = Fin 0 \<or> x = NegZero)"

definition is_inf :: "pyfloat \<Rightarrow> bool" where
  "is_inf x = (x = PosInf \<or> x = NegInf)"

fun negative :: "pyfloat \<Rightarrow> bool" where
  \<comment> \<open>the sign bit (of a value that is not a NaN)\<close>
  "negative (Fin q) = (q < 0)"
| "negative NegZero = True"
| "negative PosInf = False"
| "negative NegInf = True"
| "negative NaN = False"

fun le_zero :: "pyfloat \<Rightarrow> bool" where
  \<comment> \<open>\<open>x <= 0\<close>: every comparison with a NaN is false\<close>
  "le_zero (Fin q) = (q \<le> 0)"
| "le_zero NegZero = True"
| "le_zero PosInf = False"
| "le_zero NegInf = True"
| "le_zero NaN = False"

definition fmul :: "(rat \<Rightarrow> pyfloat) \<Rightarrow> pyfloat \<Rightarrow> pyfloat \<Rightarrow> pyfloat" where
  \<comment> \<open>\<open>x * y\<close> on floats (an \<open>int\<close> operand is converted first)\<close>
  "fmul rnd x y =
     (if x = NaN \<or> y = NaN then NaN
      else if is_inf x \<or> is_inf y then
        (if is_zero x \<or> is_zero y then NaN
         else if negative x \<noteq> negative y then NegInf else PosInf)
      else if is_zero x \<or> is_zero y then
        (if negative x \<noteq> negative y then NegZero else Fin 0)
      else (case (x, y) of
              (Fin a, Fin b) \<Rightarrow> rnd (a * b)
            | _ \<Rightarrow> NaN))"

subsection \<open>Decimal digits\<close>

definition digit_char :: "int \<Rightarrow> char" where
  "digit_char d = char_of (48 + d mod 10)"

definition digit_val :: "char \<Rightarrow> int" where
  "digit_val c = (of_char c :: int) - 48"

function digits :: "int \<Rightarrow> string" where
  \<comment> \<open>the decimal numeral of a non-negative integer\<close>
  "digits n = (if n < 10 then [digit_char n] else digits (n div 10) @ [digit_char n])"
  by pat_completeness auto
termination
  by (relation "measure nat") auto

declare digits.simps [simp del]

definition int_of_digits :: "string \<Rightarrow> int" where
  "int_of_digits ds = foldl (\<lambda>n c. 10 * n + digit_val c) 0 ds"

subsection \<open>Fixed-point formatting: \<open>format(x, '.Nf')\<close>\<close>

definition round_half_even :: "rat \<Rightarrow> int" where
  \<comment> \<open>the nearest integer to a rational, ties to even\<close>
  "round_half_even q =
     (let f = \<lfloor>q\<rfloor>; r = q - of_int f
      in if r < 1 / 2 then f
         else if 1 / 2 < r then f + 1
         else if even f then f else f + 1)"

definition fixed :: "nat \<Rightarrow> rat \<Rightarrow> string" where
  \<comment> \<open>a non-negative value with exactly \<open>d\<close> decimals, correctly rounded\<close>
  "fixed d q =
     (let n = round_half_even (q * 10 ^ d);
          frac = digits (n mod 10 ^ d)
      in digits (n div 10 ^ d) @
         (if d = 0 then []
          else CHR ''.'' # replicate (d - length frac) CHR ''0'' @ frac))"

fun fmt_f :: "nat \<Rightarrow> pyfloat \<Rightarrow> string" where
  \<comment> \<open>the f-string conversions \<open>{x:.2f}\<close> and \<open>{x:.4f}\<close>\<close>
  "fmt_f d (Fin q) = (if q < 0 then CHR ''-'' # fixed d (- q) else fixed d q)"
| "fmt_f d NegZero = CHR ''-'' # fixed d 0"
| "fmt_f d PosInf = ''inf''"
| "fmt_f d NegInf = ''-inf''"
| "fmt_f d NaN = ''nan''"

definition decimals :: "string \<Rightarrow> nat option" where
  \<comment> \<open>how many digits follow the decimal point of a numeral, if it has one\<close>
  "decimals s =
     (case dropWhile (\<lambda>c. c \<noteq> CHR ''.'') s of
        [] \<Rightarrow> None
      | c # fp \<Rightarrow> if list_all is_digit fp then Some (length fp) else None)"

subsection \<open>Reading a number: \<open>float(s)\<close> and \<open>int(s)\<close>\<close>

fun strip_underscores :: "char option \<Rightarrow> string \<Rightarrow> string option" where
  \<comment> \<open>digit separators: an underscore stands only between two digits\<close>
  "strip_underscores prev [] = (if prev = Some CHR ''_'' then None else Some [])"
| "strip_underscores prev (c # cs) =
     (if c = CHR ''_'' then
        (case prev of
           None \<Rightarrow> None
         | Some p \<Rightarrow> if is_digit p then strip_underscores (Some c) cs else None)
      else if prev = Some CHR ''_'' \<and> \<not> is_digit c then None
      else map_option ((#) c) (strip_underscores (Some c) cs))"

definition parse_sign :: "string \<Rightarrow> bool \<times> string" where
  "parse_sign s =
     (case s of
        [] \<Rightarrow> (False, [])
      | c # cs \<Rightarrow> if c = CHR ''-'' then (True, cs)
                  else if c = CHR ''+'' then (False, cs) else (False, s))"

definition parse_decimal :: "string \<Rightarrow> (int \<times> int) option" where
  \<comment> \<open>digits, an optional point and digits, an optional exponent: the mantissa \<open>m\<close> and
      the decimal exponent \<open>e\<close> of the value \<open>m * 10 ^ e\<close>\<close>
  "parse_decimal s =
     (let ip = takeWhile is_digit s;
          r1 = dropWhile is_digit s;
          (fp, r2) = (case r1 of
                        [] \<Rightarrow> ([], [])
                      | c # t \<Rightarrow> if c = CHR ''.''
                                 then (takeWhile is_digit t, dropWhile is_digit t)
                                 else ([], r1));
          m = int_of_digits (ip @ fp)
      in if ip = [] \<and> fp = [] then None
         else (case r2 of
                 [] \<Rightarrow> Some (m, - int (length fp))
               | c # t \<Rightarrow>
                   if c = CHR ''e'' \<or> c = CHR ''E'' then
                     (let (eneg, ds) = parse_sign t
                      in if ds \<noteq> [] \<and> list_all is_digit ds
                         then Some (m, (if eneg then - int_of_digits ds
                                        else int_of_digits ds) - int (length fp))
                         else None)
                   else None))"

definition pow10 :: "int \<Rightarrow> rat" where
  "pow10 e = (if 0 \<le> e then 10 ^ nat e else 1 / 10 ^ nat (- e))"

definition py_float :: "(rat \<Rightarrow> pyfloat) \<Rightarrow> string \<Rightarrow> pyfloat option" where
  \<comment> \<open>\<open>float(s)\<close>; \<open>None\<close> is the \<open>ValueError\<close>\<close>
  "py_float rnd s =
     (let t = c_strip s
      in if t = [] then None
         else (case strip_underscores None t of
                 None \<Rightarrow> None
               | Some u \<Rightarrow>
                   (let (neg, body) = parse_sign u
                    in if lower body = ''inf'' \<or> lower body = ''infinity''
                       then Some (if neg then NegInf else PosInf)
                       else if lower body = ''nan'' then Some NaN
                       else (case parse_decimal body of
                               None \<Rightarrow> None
                             | Some (m, e) \<Rightarrow>
                                 Some (if m = 0 then (if neg then NegZero else Fin 0)
                                       else rnd ((if neg then - 1 else 1) * of_int m * pow10 e))))))"

definition py_int :: "string \<Rightarrow> int option" where
  \<comment> \<open>\<open>int(s)\<close> in base 10; \<open>None\<close> is the \<open>ValueError\<close>\<close>
  "py_int s =
     (let t = c_strip s
      in (case strip_underscores None t of
            None \<Rightarrow> None
          | Some u \<Rightarrow>
              (let (neg, ds) = parse_sign u
               in if ds \<noteq> [] \<and> list_all is_digit ds
                  then Some (if neg then - int_of_digits ds else int_of_digits ds)
                  else None)))"

definition show_int :: "int \<Rightarrow> string" where
  \<comment> \<open>\<open>str(n)\<close> of an \<open>int\<close>\<close>
  "show_int n = (if n < 0 then CHR ''-'' # digits (- n) else digits n)"

section \<open>Exceptions, collaborators and effects\<close>

datatype exn_class =
  ValueError | KeyError | TypeError | AttributeError | OverflowError | TransportError
  | PlainException

text \<open>An exception is its class and its message, \<open>str(e)\<close>.\<close>

datatype exn = Exn exn_class string

fun str_exn :: "exn \<Rightarrow> string" where
  "str_exn (Exn c m) = m"

fun is_value_error :: "exn \<Rightarrow> bool" where
  \<comment> \<open>what \<open>except ValueError\<close> catches; \<open>except Exception\<close> catches every \<open>exn\<close>\<close>
  "is_value_error (Exn c m) = (c = ValueError)"

definition nl :: string where
  "nl = [CHR 0x0A]"

definition qt :: string where
  \<comment> \<open>the apostrophe\<close>
  "qt = [CHR 0x27]"

text \<open>
  A leaf of a JSON response: the rate of a currency is a number when the service keeps
  its contract, and may be \<open>null\<close> or a string when it does not.
\<close>

datatype jrate = JNum pyfloat | JNull | JStr string

text \<open>
  The decoded body of a response of the rate service: \<open>payload\<close> is the value under
  the key \<open>result\<close> (fetch-one) or \<open>results\<close> (time-series) when the key is there,
  \<open>error\<close> the string under \<open>error\<close>.
\<close>

record 'a body =
  payload :: "'a option"
  error :: "string option"

type_synonym rates = "(string \<times> jrate) list"

type_synonym series = "(string \<times> rates) list"

type_synonym keyboard = "(string \<times> string) list"

text \<open>A pyplot figure: what the chart builder draws on it.\<close>

record figure =
  xs :: "string list"
  ys :: "jrate list"
  title :: string
  ylabel :: string
  annotation :: "(string \<times> string) option"

datatype handler = ProcessAmount | ProcessCustomPair | ProcessCustomGraphPair

text \<open>The calls a handler makes on its collaborators, in the order it makes them.\<close>

datatype effect =
    SendMessage string keyboard
  | RegisterNext handler
  | OfflineLookup string string
  | HttpGet string
  | LogError string
  | SendPhoto figure string
  | DeleteMessage
  | EditMessage string
  | AnswerCallback

text \<open>
  The collaborators, none of them part of the repository, as parameters of a run:
  \<^item> \<open>round64\<close>: rounding to binary64;
  \<^item> \<open>convert b t\<close>: \<open>currency_converter.convert(1, b, t)\<close>, a float or an exception;
  \<^item> \<open>fetch_one url\<close>, \<open>time_series url\<close>: \<open>requests.get(url, timeout=10)\<close> followed by
    \<open>raise_for_status()\<close> and \<open>json()\<close>: the decoded body, or the message of the
    \<open>RequestException\<close>;
  \<^item> \<open>telegram k\<close>: whether the Bot API call made as the \<open>k\<close>-th effect of the run
    raises;
  \<^item> \<open>API_KEY\<close>: \<open>os.getenv("API_KEY")\<close>, read at import;
  \<^item> \<open>date_ago n\<close>: \<open>(datetime.now() - timedelta(days=n)).strftime('%Y-%m-%d')\<close>.
\<close>

record world =
  round64 :: "rat \<Rightarrow> pyfloat"
  convert :: "string \<Rightarrow> string \<Rightarrow> exn + pyfloat"
  fetch_one :: "string \<Rightarrow> string + rates body"
  time_series :: "string \<Rightarrow> string + series body"
  telegram :: "nat \<Rightarrow> exn option"
  API_KEY :: "string option"
  date_ago :: "int \<Rightarrow> exn + string"

text \<open>
  \<open>user_data\<close>: per user, a dict with the optional keys \<open>amount\<close> and \<open>graph_pair\<close>.
\<close>

record session =
  amount :: "pyfloat option"
  graph_pair :: "string option"

text \<open>
  The state a handler runs in: \<open>user_data\<close>, the figures pyplot holds open (the current
  one first), and the effects of the run so far.
\<close>

record run =
  user_data :: "int \<rightharpoonup> session"
  figs :: "figure list"
  trace :: "effect list"

definition emit :: "effect \<Rightarrow> run \<Rightarrow> run" where
  "emit ef r = r\<lparr>trace := trace r @ [ef]\<rparr>"

definition bot_call :: "world \<Rightarrow> effect \<Rightarrow> run \<Rightarrow> exn option \<times> run" where
  \<comment> \<open>a call of the Bot API: made, and then it returns or raises\<close>
  "bot_call w ef r = (telegram w (length (trace r)), emit ef r)"

definition send_message :: "world \<Rightarrow> string \<Rightarrow> keyboard \<Rightarrow> run \<Rightarrow> exn option \<times> run" where
  "send_message w text markup r = bot_call w (SendMessage text markup) r"

section \<open>Keyboards\<close>

definition COMMON_PAIRS :: "string list" where
  "COMMON_PAIRS =
     [''USD/EUR'', ''EUR/USD'', ''USD/GBP'', ''GBP/USD'', ''GBP/EUR'', ''EUR/GBP'',
      ''USD/JPY'', ''EUR/JPY'']"

definition create_currency_keyboard :: keyboard where
  "create_currency_keyboard =
     map (\<lambda>pair. (pair, ''convert_'' @ lower pair)) COMMON_PAIRS @
     [(''Custom pair'', ''custom_pair''),
      (''View exchange rate graph'', ''show_graph_options'')]"

definition create_graph_keyboard :: keyboard where
  "create_graph_keyboard =
     map (\<lambda>pair. (pair, ''graph_'' @ lower pair)) COMMON_PAIRS @
     [(''Custom pair'', ''custom_graph_pair'')]"

definition create_timeframe_keyboard :: "string \<Rightarrow> keyboard" where
  "create_timeframe_keyboard pair =
     [(''7 days'', ''timeframe_'' @ pair @ ''_7''),
      (''14 days'', ''timeframe_'' @ pair @ ''_14''),
      (''30 days'', ''timeframe_'' @ pair @ ''_30''),
      (''90 days'', ''timeframe_'' @ pair @ ''_90'')]"

section \<open>The remote rate service\<close>

definition key_text :: "string option \<Rightarrow> string" where
  \<comment> \<open>\<open>{API_KEY}\<close> in an f-string: \<open>None\<close> prints as \<open>None\<close>\<close>
  "key_text k = (case k of None \<Rightarrow> ''None'' | Some s \<Rightarrow> s)"

definition fetch_one_url :: "world \<Rightarrow> string \<Rightarrow> string \<Rightarrow> string" where
  "fetch_one_url w base_currency target_currency =
     ''https://api.fastforex.io/fetch-one?from='' @ base_currency @ ''&to='' @
     target_currency @ ''&api_key='' @ key_text (API_KEY w)"

definition api_error :: "'a body \<Rightarrow> exn" where
  \<comment> \<open>\<open>Exception(f"API Error: {data.get('error', 'Unknown error')}")\<close>\<close>
  "api_error data =
     Exn PlainException
       (''API Error: '' @ (case error data of None \<Rightarrow> ''Unknown error'' | Some m \<Rightarrow> m))"

definition hex_digit :: "nat \<Rightarrow> char" where
  "hex_digit n = (if n < 10 then char_of (48 + n) else char_of (87 + n))"

definition repr_char :: "char \<Rightarrow> char \<Rightarrow> string" where
  \<comment> \<open>one character inside \<open>repr(s)\<close> quoted with \<open>q\<close>: the quote and the backslash
      take a backslash, TAB, LF and CR are a backslash and \<open>t\<close>, \<open>n\<close>, \<open>r\<close>, and every
      other control character is a backslash, \<open>x\<close> and two hexadecimal digits\<close>
  "repr_char q c =
     (if c = q \<or> c = CHR 0x5C then [CHR 0x5C, c]
      else if c = CHR 0x09 then [CHR 0x5C, CHR ''t'']
      else if c = CHR 0x0A then [CHR 0x5C, CHR ''n'']
      else if c = CHR 0x0D then [CHR 0x5C, CHR ''r'']
      else if (of_char c :: nat) < 32 \<or> (of_char c :: nat) = 127
        then [CHR 0x5C, CHR ''x'', hex_digit ((of_char c :: nat) div 16),
              hex_digit ((of_char c :: nat) mod 16)]
      else [c])"

definition py_repr :: "string \<Rightarrow> string" where
  \<comment> \<open>\<open>repr(s)\<close> of an ASCII \<open>str\<close>: in apostrophes, unless \<open>s\<close> holds an apostrophe
      and no double quote, and then in double quotes\<close>
  "py_repr s =
     (let q = (if CHR 0x27 \<in> set s \<and> CHR 0x22 \<notin> set s
               then CHR 0x22 else CHR 0x27)
      in q # concat (map (repr_char q) s) @ [q])"

definition key_error :: "string \<Rightarrow> exn" where
  \<comment> \<open>\<open>KeyError(k)\<close>: its \<open>str\<close> is the \<open>repr\<close> of the key\<close>
  "key_error k = Exn KeyError (py_repr k)"

definition get_exchange_rate ::
  "world \<Rightarrow> string \<Rightarrow> string \<Rightarrow> run \<Rightarrow> (exn + jrate) \<times> run" where
  "get_exchange_rate w base_currency target_currency r =
     (let url = fetch_one_url w base_currency target_currency;
          r1 = emit (HttpGet url) r
      in case fetch_one w url of
           Inl e \<Rightarrow>
             (Inl (Exn PlainException (''Connection error: '' @ e)),
              emit (LogError (''Request error: '' @ e)) r1)
         | Inr data \<Rightarrow>
             (case payload data of
                Some res \<Rightarrow>
                  (case lookup res target_currency of
                     Some v \<Rightarrow> (Inr v, r1)
                   | None \<Rightarrow> (Inl (key_error target_currency), r1))
              | None \<Rightarrow> (Inl (api_error data), r1)))"

definition time_series_url :: "world \<Rightarrow> string \<Rightarrow> string \<Rightarrow> string \<Rightarrow> string \<Rightarrow> string" where
  "time_series_url w base_currency target_currency start_date end_date =
     ''https://api.fastforex.io/time-series?from='' @ base_currency @ ''&to='' @
     target_currency @ ''&start='' @ start_date @ ''&end='' @ end_date @
     ''&api_key='' @ key_text (API_KEY w)"

definition get_historical_rates ::
  "world \<Rightarrow> string \<Rightarrow> string \<Rightarrow> string \<Rightarrow> string \<Rightarrow> run \<Rightarrow> (exn + series) \<times> run" where
  "get_historical_rates w base_currency target_currency start_date end_date r =
     (let url = time_series_url w base_currency target_currency start_date end_date;
          r1 = emit (HttpGet url) r
      in case time_series w url of
           Inl e \<Rightarrow>
             (Inl (Exn PlainException (''Connection error: '' @ e)),
              emit (LogError (''Request error: '' @ e)) r1)
         | Inr data \<Rightarrow>
             (case payload data of
                Some res \<Rightarrow> (Inr res, r1)
              | None \<Rightarrow> (Inl (api_error data), r1)))"

section \<open>The chart builder\<close>

fun rates_of :: "series \<Rightarrow> string \<Rightarrow> string list \<Rightarrow> exn + jrate list" where
  \<comment> \<open>\<open>[data[date][target] for date in dates]\<close>\<close>
  "rates_of data target [] = Inr []"
| "rates_of data target (d # ds) =
     (case lookup data d of
        None \<Rightarrow> Inl (key_error d)
      | Some row \<Rightarrow>
          (case lookup row target of
             None \<Rightarrow> Inl (key_error target)
           | Some v \<Rightarrow>
               (case rates_of data target ds of
                  Inl e \<Rightarrow> Inl e
                | Inr vs \<Rightarrow> Inr (v # vs))))"

definition format_4f :: "jrate \<Rightarrow> exn + string" where
  \<comment> \<open>\<open>f'{v:.4f}'\<close> of a decoded JSON value\<close>
  "format_4f v =
     (case v of
        JNum x \<Rightarrow> Inr (fmt_f 4 x)
      | JNull \<Rightarrow> Inl (Exn TypeError ''unsupported format string passed to NoneType.__format__'')
      | JStr s \<Rightarrow>
          Inl (Exn ValueError
                 (''Unknown format code '' @ qt @ ''f'' @ qt @ '' for object of type '' @
                  qt @ ''str'' @ qt)))"

definition current_label :: "string list \<Rightarrow> jrate list \<Rightarrow> exn + (string \<times> string) option" where
  \<comment> \<open>the "current value" label and the date it points at, when there is a point\<close>
  "current_label dates rates =
     (if dates \<noteq> [] \<and> rates \<noteq> [] then
        (case format_4f (last rates) of
           Inl e \<Rightarrow> Inl e
         | Inr t \<Rightarrow> Inr (Some (''Current: '' @ t, last dates)))
      else Inr None)"

definition plt_figure :: "figure \<Rightarrow> run \<Rightarrow> run" where
  \<comment> \<open>\<open>plt.figure(...)\<close> and the drawing calls up to \<open>plt.tight_layout()\<close>: a new
      current figure\<close>
  "plt_figure fig r = r\<lparr>figs := fig # figs r\<rparr>"

definition plt_annotate :: "(string \<times> string) option \<Rightarrow> run \<Rightarrow> run" where
  "plt_annotate note r =
     (case figs r of
        [] \<Rightarrow> r
      | fig # rest \<Rightarrow> r\<lparr>figs := fig\<lparr>annotation := note\<rparr> # rest\<rparr>)"

definition plt_close :: "run \<Rightarrow> run" where
  \<comment> \<open>\<open>plt.close()\<close>: the current figure, if there is one\<close>
  "plt_close r = r\<lparr>figs := tl (figs r)\<rparr>"

definition draw_graph ::
  "world \<Rightarrow> string \<Rightarrow> string \<Rightarrow> string \<Rightarrow> string \<Rightarrow> run \<Rightarrow> (exn + figure) \<times> run" where
  \<comment> \<open>the \<open>try\<close> block of \<open>create_currency_graph\<close>; the image that \<open>plt.savefig\<close>
      writes is the annotated figure, which is the current one\<close>
  "draw_graph w base target start_date end_date r =
     (case get_historical_rates w base target start_date end_date r of
        (Inl e, r1) \<Rightarrow> (Inl e, r1)
      | (Inr data, r1) \<Rightarrow>
          (let dates = sort (map fst data)
           in case rates_of data target dates of
                Inl e \<Rightarrow> (Inl e, r1)
              | Inr rates \<Rightarrow>
                  (let fig = \<lparr>xs = dates, ys = rates,
                              title = base @ '' to '' @ target @ '' Exchange Rate'',
                              ylabel = ''1 '' @ base @ '' = X '' @ target,
                              annotation = None\<rparr>;
                       r2 = plt_figure fig r1
                   in case current_label dates rates of
                        Inl e \<Rightarrow> (Inl e, r2)
                      | Inr note \<Rightarrow>
                          (Inr (fig\<lparr>annotation := note\<rparr>),
                           plt_close (plt_annotate note r2)))))"

definition create_currency_graph ::
  "world \<Rightarrow> string \<Rightarrow> string \<Rightarrow> int \<Rightarrow> run \<Rightarrow> (exn + figure) \<times> run" where
  "create_currency_graph w base target days r =
     (case date_ago w 0 of
        Inl e \<Rightarrow> (Inl e, r)
      | Inr end_date \<Rightarrow>
          (case date_ago w days of
             Inl e \<Rightarrow> (Inl e, r)
           | Inr start_date \<Rightarrow>
               (case draw_graph w base target start_date end_date r of
                  (Inr img, r1) \<Rightarrow> (Inr img, r1)
                | (Inl e, r1) \<Rightarrow>
                    (Inl (Exn PlainException (''Failed to create graph: '' @ str_exn e)),
                     emit (LogError (''Graph creation error: '' @ str_exn e)) r1))))"

section \<open>Step handlers\<close>

text \<open>
  A handler takes the user's id and the text of the message (\<open>None\<close> for a message
  without text) and returns the exception that escapes it, if one does, and the state
  it leaves. The emoji that open some replies are left out of the texts.
\<close>

definition no_strip :: exn where
  \<comment> \<open>\<open>message.text.strip()\<close> on a message without text\<close>
  "no_strip =
     Exn AttributeError
       (qt @ ''NoneType'' @ qt @ '' object has no attribute '' @ qt @ ''strip'' @ qt)"

definition set_amount :: "int \<Rightarrow> pyfloat \<Rightarrow> (int \<rightharpoonup> session) \<Rightarrow> (int \<rightharpoonup> session)" where
  "set_amount user_id x d =
     d(user_id \<mapsto>
       (case d user_id of
          None \<Rightarrow> \<lparr>amount = Some x, graph_pair = None\<rparr>
        | Some s \<Rightarrow> s\<lparr>amount := Some x\<rparr>))"

definition set_graph_pair :: "int \<Rightarrow> string \<Rightarrow> (int \<rightharpoonup> session) \<Rightarrow> (int \<rightharpoonup> session)" where
  "set_graph_pair user_id p d =
     d(user_id \<mapsto>
       (case d user_id of
          None \<Rightarrow> \<lparr>amount = None, graph_pair = Some p\<rparr>
        | Some s \<Rightarrow> s\<lparr>graph_pair := Some p\<rparr>))"

definition stored_amount :: "(int \<rightharpoonup> session) \<Rightarrow> int \<Rightarrow> pyfloat option" where
  \<comment> \<open>\<open>user_data.get(user_id, {}).get('amount', 0)\<close>; \<open>None\<close> is the default, the
      \<open>int\<close> 0\<close>
  "stored_amount d user_id = (case d user_id of None \<Rightarrow> None | Some s \<Rightarrow> amount s)"

definition amount_value :: "pyfloat option \<Rightarrow> pyfloat" where
  \<comment> \<open>the amount as a float: the \<open>int\<close> 0 formats and multiplies as \<open>0.0\<close>\<close>
  "amount_value a = (case a of None \<Rightarrow> Fin 0 | Some x \<Rightarrow> x)"

definition retry_amount :: "world \<Rightarrow> run \<Rightarrow> exn option \<times> run" where
  \<comment> \<open>\<open>except ValueError\<close> of \<open>process_amount\<close>\<close>
  "retry_amount w r =
     (case send_message w ''Please enter a valid positive number. Try again:'' [] r of
        (Some e, r1) \<Rightarrow> (Some e, r1)
      | (None, r1) \<Rightarrow> (None, emit (RegisterNext ProcessAmount) r1))"

definition process_amount :: "world \<Rightarrow> int \<Rightarrow> string option \<Rightarrow> run \<Rightarrow> exn option \<times> run" where
  "process_amount w user_id text r =
     (case text of
        None \<Rightarrow> (Some no_strip, r)
      | Some t \<Rightarrow>
          (case py_float (round64 w) (strip t) of
             None \<Rightarrow> retry_amount w r
           | Some x \<Rightarrow>
               if le_zero x then retry_amount w r
               else (let r1 = r\<lparr>user_data := set_amount user_id x (user_data r)\<rparr>
                     in case send_message w
                               (''Converting '' @ fmt_f 2 x @ ''. Choose a currency pair:'')
                               create_currency_keyboard r1 of
                          (None, r2) \<Rightarrow> (None, r2)
                        | (Some e, r2) \<Rightarrow>
                            if is_value_error e then retry_amount w r2 else (Some e, r2))))"

definition parse_pair :: "string \<Rightarrow> (string \<times> string \<times> string) option" where
  \<comment> \<open>the format check of \<open>process_custom_pair\<close> and \<open>process_custom_graph_pair\<close>:
      the stripped upper-case text, the base and the target; \<open>None\<close> is the
      \<open>ValueError("Invalid format")\<close>\<close>
  "parse_pair text =
     (let pair = upper (strip text);
          currencies = split_on CHR ''/'' pair
      in if length currencies \<noteq> 2 \<or> \<not> list_all (\<lambda>c. length c = 3) currencies then None
         else (case currencies of
                 [base, target] \<Rightarrow> Some (pair, base, target)
               | _ \<Rightarrow> None))"

definition multiply :: "(rat \<Rightarrow> pyfloat) \<Rightarrow> pyfloat option \<Rightarrow> jrate \<Rightarrow> exn + pyfloat \<times> pyfloat" where
  \<comment> \<open>\<open>result = amount * rate\<close>, with the rate as a float beside it. A string rate
      multiplies with the \<open>int\<close> 0 to the empty string, and the reply's f-string then
      raises on it, with no effect in between.\<close>
  "multiply rnd amt rate =
     (case rate of
        JNum x \<Rightarrow> Inr (x, fmul rnd (amount_value amt) x)
      | JNull \<Rightarrow>
          Inl (Exn TypeError
                 (''unsupported operand type(s) for *: '' @ qt @
                  (case amt of None \<Rightarrow> ''int'' | Some a \<Rightarrow> ''float'') @ qt @ '' and '' @
                  qt @ ''NoneType'' @ qt))
      | JStr s \<Rightarrow>
          (case amt of
             None \<Rightarrow>
               Inl (Exn ValueError
                      (''Unknown format code '' @ qt @ ''f'' @ qt @
                       '' for object of type '' @ qt @ ''str'' @ qt))
           | Some a \<Rightarrow>
               Inl (Exn TypeError
                      (''can'' @ qt @ ''t multiply sequence by non-int of type '' @ qt @
                       ''float'' @ qt))))"

definition conversion_text :: "pyfloat option \<Rightarrow> string \<Rightarrow> string \<Rightarrow> pyfloat \<Rightarrow> pyfloat \<Rightarrow> string" where
  "conversion_text amt base target res rate =
     ''*Conversion Result:*'' @ nl @ nl @
     fmt_f 2 (amount_value amt) @ '' '' @ base @ '' = '' @ fmt_f 2 res @ '' '' @ target @ nl @
     ''Rate: 1 '' @ base @ '' = '' @ fmt_f 4 rate @ '' '' @ target @ nl @ nl @
     ''Use /convert to convert another amount.''"

definition convert_reply ::
  "world \<Rightarrow> pyfloat option \<Rightarrow> string \<Rightarrow> string \<Rightarrow> jrate \<Rightarrow> run \<Rightarrow> exn option \<times> run" where
  \<comment> \<open>\<open>result = amount * rate\<close> and the \<open>bot.send_message\<close> of the result\<close>
  "convert_reply w amt base target rate r =
     (case multiply (round64 w) amt rate of
        Inl e \<Rightarrow> (Some e, r)
      | Inr (x, res) \<Rightarrow> send_message w (conversion_text amt base target res x) [] r)"

definition conversion_failed :: "exn \<Rightarrow> exn" where
  "conversion_failed api_e = Exn PlainException (''Currency conversion failed: '' @ str_exn api_e)"

definition custom_convert ::
  "world \<Rightarrow> pyfloat option \<Rightarrow> string \<Rightarrow> string \<Rightarrow> run \<Rightarrow> exn option \<times> run" where
  \<comment> \<open>the nested \<open>try\<close> of \<open>process_custom_pair\<close>: the offline table and the reply,
      and on any exception of either the remote service and the reply\<close>
  "custom_convert w amt base target r =
     (case (case convert w base target of
              Inl e \<Rightarrow> (Some e, emit (OfflineLookup base target) r)
            | Inr x \<Rightarrow>
                convert_reply w amt base target (JNum x) (emit (OfflineLookup base target) r)) of
        (None, r1) \<Rightarrow> (None, r1)
      | (Some e, r1) \<Rightarrow>
          (case get_exchange_rate w base target r1 of
             (Inl api_e, r2) \<Rightarrow> (Some (conversion_failed api_e), r2)
           | (Inr rate, r2) \<Rightarrow>
               (case convert_reply w amt base target rate r2 of
                  (None, r3) \<Rightarrow> (None, r3)
                | (Some api_e, r3) \<Rightarrow> (Some (conversion_failed api_e), r3))))"

definition invalid_format :: "world \<Rightarrow> handler \<Rightarrow> run \<Rightarrow> exn option \<times> run" where
  \<comment> \<open>\<open>except ValueError\<close> of the two pair handlers\<close>
  "invalid_format w h r =
     (case send_message w ''Invalid format. Please use the format: USD/EUR'' [] r of
        (Some e, r1) \<Rightarrow> (Some e, r1)
      | (None, r1) \<Rightarrow> (None, emit (RegisterNext h) r1))"

definition pair_error :: "world \<Rightarrow> handler \<Rightarrow> exn \<Rightarrow> run \<Rightarrow> exn option \<times> run" where
  \<comment> \<open>\<open>except Exception as e\<close> of the two pair handlers\<close>
  "pair_error w h e r =
     (case send_message w
             (''Error: '' @ str_exn e @ nl @ nl @ ''Please try a different currency pair.'')
             [] r of
        (Some e1, r1) \<Rightarrow> (Some e1, r1)
      | (None, r1) \<Rightarrow>
          (case send_message w ''Enter a currency pair (e.g., USD/EUR):'' [] r1 of
             (Some e2, r2) \<Rightarrow> (Some e2, r2)
           | (None, r2) \<Rightarrow> (None, emit (RegisterNext h) r2)))"

definition pair_except :: "world \<Rightarrow> handler \<Rightarrow> exn \<Rightarrow> run \<Rightarrow> exn option \<times> run" where
  "pair_except w h e r =
     (if is_value_error e then invalid_format w h r else pair_error w h e r)"

definition process_custom_pair :: "world \<Rightarrow> int \<Rightarrow> string option \<Rightarrow> run \<Rightarrow> exn option \<times> run" where
  "process_custom_pair w user_id text r =
     (case text of
        None \<Rightarrow> pair_error w ProcessCustomPair no_strip r
      | Some t \<Rightarrow>
          (case parse_pair t of
             None \<Rightarrow> invalid_format w ProcessCustomPair r
           | Some (pair, base, target) \<Rightarrow>
               (case custom_convert w (stored_amount (user_data r) user_id) base target r of
                  (None, r1) \<Rightarrow> (None, r1)
                | (Some e, r1) \<Rightarrow> pair_except w ProcessCustomPair e r1)))"

definition process_custom_graph_pair ::
  "world \<Rightarrow> int \<Rightarrow> string option \<Rightarrow> run \<Rightarrow> exn option \<times> run" where
  "process_custom_graph_pair w user_id text r =
     (case text of
        None \<Rightarrow> pair_error w ProcessCustomGraphPair no_strip r
      | Some t \<Rightarrow>
          (case parse_pair t of
             None \<Rightarrow> invalid_format w ProcessCustomGraphPair r
           | Some (pair, base, target) \<Rightarrow>
               (let r1 = r\<lparr>user_data := set_graph_pair user_id pair (user_data r)\<rparr>
                in case send_message w
                          (''Select time period for '' @ base @ ''/'' @ target @ '' graph:'')
                          (create_timeframe_keyboard (lower pair)) r1 of
                     (None, r2) \<Rightarrow> (None, r2)
                   | (Some e, r2) \<Rightarrow> pair_except w ProcessCustomGraphPair e r2)))"

section \<open>The callback handler\<close>

definition unpack_error :: "nat \<Rightarrow> nat \<Rightarrow> exn" where
  \<comment> \<open>unpacking a list of \<open>got\<close> values into \<open>expected\<close> names\<close>
  "unpack_error expected got =
     Exn ValueError
       (if got < expected
        then ''not enough values to unpack (expected '' @ show_int (int expected) @
             '', got '' @ show_int (int got) @ '')''
        else ''too many values to unpack (expected '' @ show_int (int expected) @ '')'')"

definition split_pair :: "string \<Rightarrow> exn + string \<times> string" where
  \<comment> \<open>\<open>base, target = pair.upper().split('/')\<close>\<close>
  "split_pair pair =
     (case split_on CHR ''/'' (upper pair) of
        [base, target] \<Rightarrow> Inr (base, target)
      | parts \<Rightarrow> Inl (unpack_error 2 (length parts)))"

definition resolve_rate ::
  "world \<Rightarrow> pyfloat option \<Rightarrow> string \<Rightarrow> string \<Rightarrow> run \<Rightarrow> (exn + pyfloat \<times> pyfloat) \<times> run" where
  \<comment> \<open>the inner \<open>try\<close> of the \<open>convert_\<close> branch: the rate and \<open>amount * rate\<close>, from
      the offline table, or on any exception of it from the remote service\<close>
  "resolve_rate w amt base target r =
     (case convert w base target of
        Inr x \<Rightarrow> (multiply (round64 w) amt (JNum x), emit (OfflineLookup base target) r)
      | Inl e \<Rightarrow>
          (case get_exchange_rate w base target (emit (OfflineLookup base target) r) of
             (Inl e1, r1) \<Rightarrow> (Inl e1, r1)
           | (Inr rate, r1) \<Rightarrow> (multiply (round64 w) amt rate, r1)))"

definition convert_branch :: "world \<Rightarrow> int \<Rightarrow> string \<Rightarrow> run \<Rightarrow> exn option \<times> run" where
  "convert_branch w user_id data r =
     (case split_pair (remove_all ''convert_'' data) of
        Inl e \<Rightarrow> (Some e, r)
      | Inr (base, target) \<Rightarrow>
          (let amt = stored_amount (user_data r) user_id
           in case resolve_rate w amt base target r of
                (Inl e, r1) \<Rightarrow> (Some e, r1)
              | (Inr (x, res), r1) \<Rightarrow>
                  send_message w (conversion_text amt base target res x) [] r1))"

definition graph_branch :: "world \<Rightarrow> int \<Rightarrow> string \<Rightarrow> run \<Rightarrow> exn option \<times> run" where
  "graph_branch w user_id data r =
     (let pair = remove_all ''graph_'' data;
          r1 = r\<lparr>user_data := set_graph_pair user_id (upper pair) (user_data r)\<rparr>
      in send_message w (''Select time period for '' @ upper pair @ '' graph:'')
           (create_timeframe_keyboard pair) r1)"

definition send_graph :: "world \<Rightarrow> string \<Rightarrow> string \<Rightarrow> int \<Rightarrow> run \<Rightarrow> exn option \<times> run" where
  \<comment> \<open>the \<open>try\<close> block of the \<open>timeframe_\<close> branch\<close>
  "send_graph w base target days r =
     (case create_currency_graph w base target days r of
        (Inl e, r1) \<Rightarrow> (Some e, r1)
      | (Inr graph_buffer, r1) \<Rightarrow>
          (case bot_call w
                  (SendPhoto graph_buffer
                     (base @ ''/'' @ target @ '' exchange rate over the past '' @
                      show_int days @ '' days.'' @ nl @ ''Use /graph to view a different graph.''))
                  r1 of
             (Some e, r2) \<Rightarrow> (Some e, r2)
           | (None, r2) \<Rightarrow> bot_call w DeleteMessage r2))"

definition chosen_pair :: "(int \<rightharpoonup> session) \<Rightarrow> int \<Rightarrow> string \<Rightarrow> string" where
  \<comment> \<open>\<open>if user_id in user_data and 'graph_pair' in user_data[user_id]: pair = ...\<close>\<close>
  "chosen_pair d user_id pair =
     (case d user_id of
        None \<Rightarrow> pair
      | Some s \<Rightarrow> (case graph_pair s of None \<Rightarrow> pair | Some p \<Rightarrow> p))"

definition int_error :: "string \<Rightarrow> exn" where
  "int_error s = Exn ValueError (''invalid literal for int() with base 10: '' @ py_repr s)"

definition timeframe_branch :: "world \<Rightarrow> int \<Rightarrow> string \<Rightarrow> run \<Rightarrow> exn option \<times> run" where
  "timeframe_branch w user_id data r =
     (case split_on CHR ''_'' data of
        [u, pair, days_text] \<Rightarrow>
          (case py_int days_text of
             None \<Rightarrow> (Some (int_error days_text), r)
           | Some days \<Rightarrow>
               (case split_pair (chosen_pair (user_data r) user_id pair) of
                  Inl e \<Rightarrow> (Some e, r)
                | Inr (base, target) \<Rightarrow>
                    (case send_message w
                            (''Generating '' @ show_int days @ ''-day graph for '' @ base @
                             ''/'' @ target @ ''...'' @ nl @ ''This may take a moment.'')
                            [] r of
                       (Some e, r1) \<Rightarrow> (Some e, r1)
                     | (None, r1) \<Rightarrow>
                         (case send_graph w base target days r1 of
                            (None, r2) \<Rightarrow> (None, r2)
                          | (Some e, r2) \<Rightarrow>
                              bot_call w
                                (EditMessage (''Error generating graph: '' @ str_exn e)) r2))))
      | parts \<Rightarrow> (Some (unpack_error 3 (length parts)), r))"

definition ask :: "world \<Rightarrow> string \<Rightarrow> handler \<Rightarrow> run \<Rightarrow> exn option \<times> run" where
  \<comment> \<open>a prompt and \<open>bot.register_next_step_handler\<close>\<close>
  "ask w text h r =
     (case send_message w text [] r of
        (Some e, r1) \<Rightarrow> (Some e, r1)
      | (None, r1) \<Rightarrow> (None, emit (RegisterNext h) r1))"

definition dispatch :: "world \<Rightarrow> int \<Rightarrow> string \<Rightarrow> run \<Rightarrow> exn option \<times> run" where
  \<comment> \<open>the \<open>if\<close>/\<open>elif\<close> chain on \<open>call.data\<close>\<close>
  "dispatch w user_id data r =
     (if startswith data ''convert_'' then convert_branch w user_id data r
      else if data = ''custom_pair''
        then ask w ''Enter a currency pair (e.g., USD/EUR):'' ProcessCustomPair r
      else if startswith data ''graph_'' then graph_branch w user_id data r
      else if data = ''custom_graph_pair''
        then ask w ''Enter a currency pair for the graph (e.g., USD/EUR):''
               ProcessCustomGraphPair r
      else if startswith data ''timeframe_'' then timeframe_branch w user_id data r
      else if data = ''show_graph_options''
        then send_message w ''Choose a currency pair for the graph:'' create_graph_keyboard r
      else (None, r))"

definition handle_callback_query :: "world \<Rightarrow> int \<Rightarrow> string \<Rightarrow> run \<Rightarrow> exn option \<times> run" where
  "handle_callback_query w user_id data r =
     (case (case dispatch w user_id data r of
              (Some e, r1) \<Rightarrow> (Some e, r1)
            | (None, r1) \<Rightarrow> bot_call w AnswerCallback r1) of
        (None, r2) \<Rightarrow> (None, r2)
      | (Some e, r2) \<Rightarrow>
          (case bot_call w AnswerCallback
                  (emit (LogError (''Callback error: '' @ str_exn e)) r2) of
             (Some e1, r3) \<Rightarrow> (Some e1, r3)
           | (None, r3) \<Rightarrow>
               send_message w
                 (''An error occurred: '' @ str_exn e @ nl @ nl @
                  ''Please try again or use /help.'')
                 [] r3))"

section \<open>Start-up\<close>




section \<open>The specification's pair pattern\<close>

definition spec_pair_pattern :: "string \<Rightarrow> bool" where
  \<comment> \<open>the specification's words, not the code: a whole-string match of
      \<open>^[A-Za-z]{3}/[A-Za-z]{3}$\<close>\<close>
  "spec_pair_pattern s =
     (length s = 7 \<and> list_all is_alpha (take 3 s) \<and> s ! 3 = CHR ''/'' \<and>
      list_all is_alpha (drop 4 s))"

section \<open>Calendar dates\<close>

text \<open>
  The service keys its series by ISO dates, \<open>YYYY-MM-DD\<close>. The day such a key names
  is measured by the number \<open>YYYYMMDD\<close>: a later day has a larger number.
\<close>

definition iso_shape :: "string \<Rightarrow> bool" where
  "iso_shape s =
     (length s = 10 \<and> list_all is_digit (take 4 s) \<and> s ! 4 = CHR ''-'' \<and>
      list_all is_digit (take 2 (drop 5 s)) \<and> s ! 7 = CHR ''-'' \<and>
      list_all is_digit (drop 8 s))"

definition date_number :: "string \<Rightarrow> int" where
  "date_number s = int_of_digits (filter is_digit s)"

section \<open>Sample collaborators\<close>

text \<open>
  A world for concrete runs: exact rounding, an offline table that knows USD to EUR only,
  a remote service that knows the tenge, a three-day series out of order, and a
  transport that delivers.
\<close>

definition sample_world :: world where
  "sample_world =
     \<lparr>round64 = Fin,
      convert = (\<lambda>b t. if b = ''USD'' \<and> t = ''EUR'' then Inr (Fin (9 / 10))
                        else Inl (Exn ValueError (b @ '' is not a supported currency''))),
      fetch_one = (\<lambda>u. Inr \<lparr>payload = Some [(''KZT'', JNum (Fin 450))], error = None\<rparr>),
      time_series =
        (\<lambda>u. Inr \<lparr>payload =
                     Some [(''2024-01-03'', [(''EUR'', JNum (Fin (91 / 100)))]),
                           (''2024-01-01'', [(''EUR'', JNum (Fin (9 / 10)))]),
                           (''2024-01-02'', [(''EUR'', JNum (Fin (23 / 25)))])],
                   error = None\<rparr>),
      telegram = (\<lambda>k. None),
      API_KEY = Some ''key'',
      date_ago = (\<lambda>n. Inr ''2024-01-03'')\<rparr>"

definition start :: run where
  \<comment> \<open>no session, no open figure, no effect yet\<close>
  "start = \<lparr>user_data = Map.empty, figs = [], trace = []\<rparr>"

definition flaky_world :: world where
  \<comment> \<open>as \<open>sample_world\<close>, but the remote service knows the euro and the second effect
      of a run, when it is a Bot API call, times out\<close>
  "flaky_world =
     sample_world
       \<lparr>fetch_one := (\<lambda>u. Inr \<lparr>payload = Some [(''EUR'', JNum (Fin (19 / 20)))], error = None\<rparr>),
        telegram := (\<lambda>k. if k = 1 then Some (Exn TransportError ''Read timed out.'') else None)\<rparr>"

fun is_http_get :: "effect \<Rightarrow> bool" where
  "is_http_get (HttpGet url) = True"
| "is_http_get ef = False"

definition remote_calls :: "effect list \<Rightarrow> nat" where
  \<comment> \<open>how many HTTP requests a trace holds\<close>
  "remote_calls tr = length (filter is_http_get tr)"

definition hundred :: run where
  \<comment> \<open>user 1 has entered the amount 100\<close>
  "hundred = start\<lparr>user_data := [1 \<mapsto> \<lparr>amount = Some (Fin 100), graph_pair = None\<rparr>]\<rparr>"

definition picked :: run where
  \<comment> \<open>user 1 has chosen the pair GBP/EUR for a graph\<close>
  "picked = start\<lparr>user_data := [1 \<mapsto> \<lparr>amount = None, graph_pair = Some ''GBP/EUR''\<rparr>]\<rparr>"

definition null_world :: world where
  \<comment> \<open>as \<open>sample_world\<close>, but the series holds one day whose rate is \<open>null\<close>\<close>
  "null_world =
     sample_world
       \<lparr>time_series :=
          (\<lambda>u. Inr \<lparr>payload = Some [(''2024-01-01'', [(''EUR'', JNull)])], error = None\<rparr>)\<rparr>"

definition later_world :: world where
  \<comment> \<open>as \<open>sample_world\<close> on another day, with the time-series endpoint down: the data
      that rate resolution reads is the same\<close>
  "later_world =
     sample_world
       \<lparr>time_series := (\<lambda>u. Inl ''503 Server Error''),
        date_ago := (\<lambda>n. Inr ''2024-02-01'')\<rparr>"



section \<open>Properties\<close>

subsection \<open>Effects and state\<close>

lemma user_data_emit [simp]: "user_data (emit ef r) = user_data r"
  by (simp add: emit_def)

lemma figs_emit [simp]: "figs (emit ef r) = figs r"
  by (simp add: emit_def)

lemma trace_emit [simp]: "trace (emit ef r) = trace r @ [ef]"
  by (simp add: emit_def)

subsection \<open>Amount entry\<close>

lemma strip_nan: "strip ''nan'' = ''nan''"
  by (simp add: strip_def is_space_def)

lemma py_float_nan: "py_float rnd ''nan'' = Some NaN"
  by (simp add: py_float_def c_strip_def is_c_space_def parse_sign_def lower_def lower_char_def
      is_upper_def is_digit_def)

lemma retry_amount_user_data: "user_data (snd (retry_amount w r)) = user_data r"
  by (simp add: retry_amount_def send_message_def bot_call_def split: option.splits)

lemma retry_amount_trace: "\<exists>rest. trace (snd (retry_amount w r)) = trace r @ rest"
  by (simp add: retry_amount_def send_message_def bot_call_def split: option.splits)

text \<open>
  A text that \<open>float\<close> rejects, or whose value is \<open><= 0\<close>, leaves \<open>user_data\<close> as it
  was; when the transport delivers, the user is asked again and \<open>process_amount\<close> is
  registered for the next message, any number of times.
\<close>

lemma process_amount_rejected:
  assumes "py_float (round64 w) (strip t) = None
           \<or> (\<exists>x. py_float (round64 w) (strip t) = Some x \<and> le_zero x)"
  shows "process_amount w user_id (Some t) r = retry_amount w r"
    and "user_data (snd (process_amount w user_id (Some t) r)) = user_data r"
proof -
  show "process_amount w user_id (Some t) r = retry_amount w r"
    using assms by (auto simp: process_amount_def)
  then show "user_data (snd (process_amount w user_id (Some t) r)) = user_data r"
    by (simp add: retry_amount_user_data)
qed

lemma process_amount_reprompts:
  assumes "py_float (round64 w) (strip t) = None
           \<or> (\<exists>x. py_float (round64 w) (strip t) = Some x \<and> le_zero x)"
    and "telegram w (length (trace r)) = None"
  shows "process_amount w user_id (Some t) r =
           (None, r\<lparr>trace := trace r @
                     [SendMessage ''Please enter a valid positive number. Try again:'' [],
                      RegisterNext ProcessAmount]\<rparr>)"
  using assms
  by (auto simp: process_amount_def retry_amount_def send_message_def bot_call_def emit_def)

text \<open>A text whose value is not \<open><= 0\<close> is stored as the amount, as \<open>float\<close> read it.\<close>

lemma process_amount_accepted:
  assumes "py_float (round64 w) (strip t) = Some x" and "\<not> le_zero x"
  shows "stored_amount (user_data (snd (process_amount w user_id (Some t) r))) user_id = Some x"
proof -
  have "stored_amount (set_amount user_id x (user_data r)) user_id = Some x"
    by (simp add: stored_amount_def set_amount_def split: option.splits)
  then show ?thesis using assms
    by (simp add: process_amount_def send_message_def bot_call_def retry_amount_user_data
        Let_def split: option.splits)
qed

text \<open>
  Claim C3. Amount parsing rejects every text that is not a positive decimal number
  and leaves the session unchanged. The code does not: \<open>float("nan")\<close> is a NaN, the
  test \<open>amount <= 0\<close> is false on it, and \<open>process_amount\<close> stores the NaN as the
  user's amount and answers "Converting nan. Choose a currency pair:", whatever the
  collaborators do.
\<close>

theorem process_amount_accepts_nan:
  "stored_amount (user_data (snd (process_amount w user_id (Some ''nan'') r))) user_id = Some NaN
   \<and> (\<exists>rest. trace (snd (process_amount w user_id (Some ''nan'') r)) =
         trace r @ SendMessage ''Converting nan. Choose a currency pair:''
                     create_currency_keyboard # rest)"
proof -
  let ?r1 = "r\<lparr>user_data := set_amount user_id NaN (user_data r)\<rparr>"
  let ?m = "SendMessage ''Converting nan. Choose a currency pair:'' create_currency_keyboard"
  have stored: "stored_amount (set_amount user_id NaN (user_data r)) user_id = Some NaN"
    by (simp add: stored_amount_def set_amount_def split: option.splits)
  show ?thesis
  proof (cases "telegram w (length (trace r))")
    case None
    then have "process_amount w user_id (Some ''nan'') r = (None, emit ?m ?r1)"
      by (simp add: process_amount_def strip_nan py_float_nan send_message_def bot_call_def)
    then show ?thesis using stored by simp
  next
    case (Some e)
    show ?thesis
    proof (cases "is_value_error e")
      case True
      with Some have eq: "process_amount w user_id (Some ''nan'') r = retry_amount w (emit ?m ?r1)"
        by (simp add: process_amount_def strip_nan py_float_nan send_message_def bot_call_def)
      obtain rest where "trace (snd (retry_amount w (emit ?m ?r1))) = trace (emit ?m ?r1) @ rest"
        using retry_amount_trace by blast
      then show ?thesis using stored eq by (simp add: retry_amount_user_data)
    next
      case False
      with Some have "process_amount w user_id (Some ''nan'') r = (Some e, emit ?m ?r1)"
        by (simp add: process_amount_def strip_nan py_float_nan send_message_def bot_call_def)
      then show ?thesis using stored by simp
    qed
  qed
qed

subsection \<open>Pair entry\<close>

lemma split_on_no_sep: "c \<notin> set s \<Longrightarrow> split_on c s = [s]"
  by (induction s) auto

lemma split_on_append: "c \<notin> set b \<Longrightarrow> split_on c (b @ c # t) = b # split_on c t"
  by (induction b) auto

lemma split_on_not_Nil [simp]: "split_on c s \<noteq> []"
  by (induction s) (auto split: list.splits)

lemma split_on_single: "split_on c s = [p] \<Longrightarrow> s = p \<and> c \<notin> set p"
  by (induction s arbitrary: p) (auto split: if_splits list.splits)

lemma split_on_two:
  "split_on c s = [b, t] \<longleftrightarrow> s = b @ c # t \<and> c \<notin> set b \<and> c \<notin> set t"
proof
  assume "split_on c s = [b, t]"
  then show "s = b @ c # t \<and> c \<notin> set b \<and> c \<notin> set t"
  proof (induction s arbitrary: b)
    case Nil
    then show ?case by simp
  next
    case (Cons a s)
    show ?case
    proof (cases "a = c")
      case True
      with Cons.prems have "b = []" and "split_on c s = [t]" by simp_all
      then show ?thesis using True split_on_single [of c s t] by simp
    next
      case False
      with Cons.prems obtain b' where b: "b = a # b'" and "split_on c s = [b', t]"
        by (auto split: list.splits)
      then show ?thesis using Cons.IH [of b'] False by simp
    qed
  qed
next
  assume "s = b @ c # t \<and> c \<notin> set b \<and> c \<notin> set t"
  then show "split_on c s = [b, t]"
    by (simp add: split_on_append split_on_no_sep)
qed

lemma parse_pair_iff:
  "parse_pair text = Some (p, b, t) \<longleftrightarrow>
     p = upper (strip text) \<and> p = b @ CHR ''/'' # t \<and> length b = 3 \<and> length t = 3 \<and>
     CHR ''/'' \<notin> set b \<and> CHR ''/'' \<notin> set t"
proof -
  have "parse_pair text = Some (p, b, t) \<longleftrightarrow>
          p = upper (strip text) \<and> split_on CHR ''/'' (upper (strip text)) = [b, t] \<and>
          length b = 3 \<and> length t = 3"
    by (auto simp: parse_pair_def Let_def split: list.splits)
  then show ?thesis by (auto simp: split_on_two)
qed

lemma alpha_not_space: "is_alpha c \<Longrightarrow> \<not> is_space c"
  by (auto simp: is_alpha_def is_lower_def is_upper_def is_space_def)

lemma upper_char_alpha_not_slash: "is_alpha c \<Longrightarrow> upper_char c \<noteq> CHR ''/''"
proof
  assume a: "is_alpha c" and eq: "upper_char c = CHR ''/''"
  from eq have "(of_char (upper_char c) :: nat) = 47" by simp
  with a show False
    by (auto simp: upper_char_def is_alpha_def is_lower_def is_upper_def split: if_splits)
qed

lemma strip_id: "s \<noteq> [] \<Longrightarrow> \<not> is_space (hd s) \<Longrightarrow> \<not> is_space (last s) \<Longrightarrow> strip s = s"
proof -
  assume ne: "s \<noteq> []" and h: "\<not> is_space (hd s)" and l: "\<not> is_space (last s)"
  from ne h have 1: "dropWhile is_space s = s" by (cases s) auto
  from ne l have "dropWhile is_space (rev s) = rev s" by (cases "rev s") (auto simp: last_rev hd_rev)
  with 1 show ?thesis by (simp add: strip_def)
qed

lemma pattern_shape:
  assumes "spec_pair_pattern s"
  shows "\<exists>a b c e f g. s = [a, b, c, CHR ''/'', e, f, g] \<and> is_alpha a \<and> is_alpha b \<and> is_alpha c
           \<and> is_alpha e \<and> is_alpha f \<and> is_alpha g"
proof -
  from assms have len: "length s = 7" by (simp add: spec_pair_pattern_def)
  then obtain a b c d e f g where s: "s = [a, b, c, d, e, f, g]"
    by (auto simp: length_Suc_conv eval_nat_numeral)
  with assms show ?thesis by (auto simp: spec_pair_pattern_def eval_nat_numeral)
qed

lemma parse_pair_pattern:
  assumes "spec_pair_pattern text"
  shows "parse_pair text = Some (upper text, upper (take 3 text), upper (drop 4 text))"
proof -
  from pattern_shape [OF assms] obtain a b c e f g where
    s: "text = [a, b, c, CHR ''/'', e, f, g]" and
    al: "is_alpha a" "is_alpha b" "is_alpha c" "is_alpha e" "is_alpha f" "is_alpha g"
    by blast
  have st: "strip text = text"
    using s al by (intro strip_id) (auto simp: alpha_not_space)
  have sl: "upper_char CHR ''/'' = CHR ''/''"
    by (simp add: upper_char_def is_lower_def)
  show ?thesis
    unfolding parse_pair_iff st
    using al by (simp add: s upper_def sl upper_char_alpha_not_slash
        upper_char_alpha_not_slash [symmetric])
qed


lemma invalid_format_user_data: "user_data (snd (invalid_format w h r)) = user_data r"
  by (simp add: invalid_format_def send_message_def bot_call_def split: option.splits)

lemma invalid_format_delivered:
  "telegram w (length (trace r)) = None \<Longrightarrow>
   invalid_format w h r =
     (None, r\<lparr>trace := trace r @
               [SendMessage ''Invalid format. Please use the format: USD/EUR'' [],
                RegisterNext h]\<rparr>)"
  by (simp add: invalid_format_def send_message_def bot_call_def emit_def)

text \<open>
  Claim C2, as amended. The code checks the shape of the text, not its letters: custom
  pair parsing accepts exactly the texts that, stripped of surrounding white space and
  put in upper case, are two parts of three characters, neither holding a slash,
  around one slash. It yields those upper-case parts, so every text that matches
  \<open>^[A-Za-z]{3}/[A-Za-z]{3}$\<close> is accepted with its upper-case base and target. A
  text that is rejected leaves \<open>user_data\<close> as it was in both pair handlers, and when
  the transport delivers, the user is told the format and the same handler is
  registered again.
\<close>

theorem parse_pair_accepts:
  assumes "ascii text"
  shows "(parse_pair text = Some (p, b, t) \<longleftrightarrow>
            p = upper (strip text) \<and> p = b @ CHR ''/'' # t \<and> length b = 3 \<and> length t = 3 \<and>
            CHR ''/'' \<notin> set b \<and> CHR ''/'' \<notin> set t)
       \<and> (spec_pair_pattern text \<longrightarrow>
            parse_pair text = Some (upper text, upper (take 3 text), upper (drop 4 text)))
       \<and> (parse_pair text = None \<longrightarrow>
            user_data (snd (process_custom_pair w user_id (Some text) r)) = user_data r \<and>
            user_data (snd (process_custom_graph_pair w user_id (Some text) r)) = user_data r \<and>
            (telegram w (length (trace r)) = None \<longrightarrow>
               process_custom_pair w user_id (Some text) r =
                 (None, r\<lparr>trace := trace r @
                           [SendMessage ''Invalid format. Please use the format: USD/EUR'' [],
                            RegisterNext ProcessCustomPair]\<rparr>) \<and>
               process_custom_graph_pair w user_id (Some text) r =
                 (None, r\<lparr>trace := trace r @
                           [SendMessage ''Invalid format. Please use the format: USD/EUR'' [],
                            RegisterNext ProcessCustomGraphPair]\<rparr>)))"
proof (intro conjI impI)
  show "parse_pair text = Some (p, b, t) \<longleftrightarrow>
          p = upper (strip text) \<and> p = b @ CHR ''/'' # t \<and> length b = 3 \<and> length t = 3 \<and>
          CHR ''/'' \<notin> set b \<and> CHR ''/'' \<notin> set t"
    by (rule parse_pair_iff)
next
  assume "spec_pair_pattern text"
  then show "parse_pair text = Some (upper text, upper (take 3 text), upper (drop 4 text))"
    by (rule parse_pair_pattern)
next
  assume "parse_pair text = None"
  then show "user_data (snd (process_custom_pair w user_id (Some text) r)) = user_data r"
    by (simp add: process_custom_pair_def invalid_format_user_data)
next
  assume "parse_pair text = None"
  then show "user_data (snd (process_custom_graph_pair w user_id (Some text) r)) = user_data r"
    by (simp add: process_custom_graph_pair_def invalid_format_user_data)
next
  assume "parse_pair text = None" and "telegram w (length (trace r)) = None"
  then show "process_custom_pair w user_id (Some text) r =
               (None, r\<lparr>trace := trace r @
                         [SendMessage ''Invalid format. Please use the format: USD/EUR'' [],
                          RegisterNext ProcessCustomPair]\<rparr>)"
    by (simp add: process_custom_pair_def invalid_format_delivered)
next
  assume "parse_pair text = None" and "telegram w (length (trace r)) = None"
  then show "process_custom_graph_pair w user_id (Some text) r =
               (None, r\<lparr>trace := trace r @
                         [SendMessage ''Invalid format. Please use the format: USD/EUR'' [],
                          RegisterNext ProcessCustomGraphPair]\<rparr>)"
    by (simp add: process_custom_graph_pair_def invalid_format_delivered)
qed

text \<open>
  The claim as stated, that only texts matching the pattern are accepted, fails on
  digits.
\<close>

theorem parse_pair_counterexample:
  "parse_pair ''123/456'' = Some (''123/456'', ''123'', ''456'') \<and> \<not> spec_pair_pattern ''123/456''"
  by code_simp


theorem parse_pair_accepts_witness:
  "ascii ''usd/eur'' \<and> spec_pair_pattern ''usd/eur'' \<and>
   parse_pair ''usd/eur'' = Some (''USD/EUR'', ''USD'', ''EUR'') \<and>
   ascii ''usd-eur'' \<and> parse_pair ''usd-eur'' = None \<and>
   telegram sample_world (length (trace start)) = None \<and>
   process_custom_pair sample_world 1 (Some ''usd-eur'') start =
     (None, \<lparr>user_data = Map.empty, figs = [],
             trace = [SendMessage ''Invalid format. Please use the format: USD/EUR'' [],
                      RegisterNext ProcessCustomPair]\<rparr>)"
proof -
  have a1: "ascii ''usd/eur''" by code_simp
  have a2: "spec_pair_pattern ''usd/eur''" by code_simp
  have a3: "ascii ''usd-eur''" by code_simp
  have a4: "parse_pair ''usd-eur'' = None" by code_simp
  have a5: "telegram sample_world (length (trace start)) = None" by (simp add: sample_world_def)
  have u: "upper ''usd/eur'' = ''USD/EUR''" "upper (take 3 ''usd/eur'') = ''USD''"
    "upper (drop 4 ''usd/eur'') = ''EUR''" by code_simp+
  from parse_pair_accepts [OF a1, of "''USD/EUR''" "''USD''" "''EUR''" sample_world 1 start] a2
  have b1: "parse_pair ''usd/eur'' = Some (''USD/EUR'', ''USD'', ''EUR'')"
    unfolding u by blast
  from parse_pair_accepts [OF a3, of "''USD-EUR''" "''USD''" "''EUR''" sample_world 1 start] a4 a5
  have b2: "process_custom_pair sample_world 1 (Some ''usd-eur'') start =
     (None, \<lparr>user_data = Map.empty, figs = [],
             trace = [SendMessage ''Invalid format. Please use the format: USD/EUR'' [],
                      RegisterNext ProcessCustomPair]\<rparr>)"
    by (simp add: start_def)
  from a1 a2 a3 a4 a5 b1 b2 show ?thesis by blast
qed

subsection \<open>Rate resolution\<close>

lemma remote_calls_append [simp]: "remote_calls (a @ b) = remote_calls a + remote_calls b"
  by (simp add: remote_calls_def)

lemma remote_calls_Nil [simp]: "remote_calls [] = 0"
  by (simp add: remote_calls_def)

lemma remote_calls_Cons [simp]:
  "remote_calls (ef # tr) = (if is_http_get ef then Suc (remote_calls tr) else remote_calls tr)"
  by (simp add: remote_calls_def)

lemma get_exchange_rate_trace:
  "trace (snd (get_exchange_rate w b t r)) = trace r @ [HttpGet (fetch_one_url w b t)]
   \<or> (\<exists>m. fetch_one w (fetch_one_url w b t) = Inl m \<and>
          trace (snd (get_exchange_rate w b t r)) =
            trace r @ [HttpGet (fetch_one_url w b t), LogError (''Request error: '' @ m)])"
  by (simp add: get_exchange_rate_def Let_def split: sum.splits option.splits)

lemma get_exchange_rate_calls:
  "remote_calls (trace (snd (get_exchange_rate w b t r))) = Suc (remote_calls (trace r))"
  using get_exchange_rate_trace [of w b t r] by auto

lemma get_exchange_rate_user_data [simp]:
  "user_data (snd (get_exchange_rate w b t r)) = user_data r"
  by (simp add: get_exchange_rate_def Let_def split: sum.splits option.splits)

lemma get_exchange_rate_figs [simp]:
  "figs (snd (get_exchange_rate w b t r)) = figs r"
  by (simp add: get_exchange_rate_def Let_def split: sum.splits option.splits)

text \<open>What a failure of the remote call says: the transport's message, the service's
  error text, or the missing currency.\<close>

lemma get_exchange_rate_failure:
  assumes "fst (get_exchange_rate w b t r) = Inl e"
  shows "(\<exists>m. fetch_one w (fetch_one_url w b t) = Inl m \<and>
              e = Exn PlainException (''Connection error: '' @ m))
       \<or> (\<exists>data. fetch_one w (fetch_one_url w b t) = Inr data \<and>
              (e = api_error data \<or> e = key_error t))"
  using assms
  by (auto simp: get_exchange_rate_def Let_def split: sum.splits option.splits)

text \<open>
  The \<open>convert_\<close> branch of the callback handler resolves a rate as the specification
  says: the offline table first; its rate, when it has one, with no request; one request
  when it has none; and the remote failure itself when that fails too.
\<close>

lemma resolve_rate_offline:
  assumes "convert w b t = Inr x"
  shows "resolve_rate w amt b t r =
           (Inr (x, fmul (round64 w) (amount_value amt) x), emit (OfflineLookup b t) r)"
  using assms by (simp add: resolve_rate_def multiply_def)

lemma resolve_rate_offline_no_request:
  assumes "convert w b t = Inr x"
  shows "remote_calls (trace (snd (resolve_rate w amt b t r))) = remote_calls (trace r)"
  using assms by (simp add: resolve_rate_offline)

lemma resolve_rate_remote_once:
  assumes "convert w b t = Inl e"
  shows "remote_calls (trace (snd (resolve_rate w amt b t r))) = Suc (remote_calls (trace r))"
    and "\<exists>rest. trace (snd (resolve_rate w amt b t r)) =
           trace r @ OfflineLookup b t # HttpGet (fetch_one_url w b t) # rest"
proof -
  let ?r0 = "emit (OfflineLookup b t) r"
  have eq: "snd (resolve_rate w amt b t r) = snd (get_exchange_rate w b t ?r0)"
    using assms by (simp add: resolve_rate_def split: prod.splits sum.splits)
  show "remote_calls (trace (snd (resolve_rate w amt b t r))) = Suc (remote_calls (trace r))"
    unfolding eq by (simp add: get_exchange_rate_calls)
  show "\<exists>rest. trace (snd (resolve_rate w amt b t r)) =
           trace r @ OfflineLookup b t # HttpGet (fetch_one_url w b t) # rest"
    unfolding eq using get_exchange_rate_trace [of w b t ?r0] by auto
qed

lemma resolve_rate_both_fail:
  assumes "convert w b t = Inl e"
    and "get_exchange_rate w b t (emit (OfflineLookup b t) r) = (Inl e1, r1)"
  shows "resolve_rate w amt b t r = (Inl e1, r1)"
  using assms by (simp add: resolve_rate_def)

lemma callback_reports_remote_failure:
  assumes "split_pair (remove_all ''convert_'' data) = Inr (b, t)"
    and "startswith data ''convert_''"
    and "convert w b t = Inl e"
    and "get_exchange_rate w b t (emit (OfflineLookup b t) r) = (Inl e1, r1)"
    and "telegram w (Suc (length (trace r1))) = None"
  shows "\<exists>rest. trace (snd (handle_callback_query w user_id data r)) =
           trace r1 @ [LogError (''Callback error: '' @ str_exn e1), AnswerCallback,
                       SendMessage (''An error occurred: '' @ str_exn e1 @ nl @ nl @
                                    ''Please try again or use /help.'') []]"
  using assms
  by (simp add: handle_callback_query_def dispatch_def convert_branch_def
      resolve_rate_both_fail bot_call_def send_message_def emit_def)


text \<open>
  \<open>process_custom_pair\<close> keeps the reply inside the \<open>try\<close> that guards the offline
  table. When the reply is delivered it behaves as the callback handler does.
\<close>

lemma custom_convert_offline_delivered:
  assumes "convert w b t = Inr x"
    and "telegram w (Suc (length (trace r))) = None"
  shows "custom_convert w amt b t r =
           (None, r\<lparr>trace := trace r @
                     [OfflineLookup b t,
                      SendMessage (conversion_text amt b t
                                     (fmul (round64 w) (amount_value amt) x) x) []]\<rparr>)"
  using assms
  by (simp add: custom_convert_def convert_reply_def multiply_def send_message_def
      bot_call_def emit_def)

lemma custom_convert_both_fail:
  assumes "convert w b t = Inl e"
    and "get_exchange_rate w b t (emit (OfflineLookup b t) r) = (Inl e1, r1)"
  shows "custom_convert w amt b t r = (Some (conversion_failed e1), r1)"
  using assms by (simp add: custom_convert_def)

lemma pair_error_trace: "\<exists>rest. trace (snd (pair_error w h e r)) = trace r @ rest"
  by (simp add: pair_error_def send_message_def bot_call_def split: option.splits)

lemma invalid_format_trace: "\<exists>rest. trace (snd (invalid_format w h r)) = trace r @ rest"
  by (simp add: invalid_format_def send_message_def bot_call_def split: option.splits)

lemma pair_except_trace: "\<exists>rest. trace (snd (pair_except w h e r)) = trace r @ rest"
  using pair_error_trace invalid_format_trace by (simp add: pair_except_def)

lemma custom_pair_reports_remote_failure:
  assumes "parse_pair text = Some (p, b, t)"
    and "convert w b t = Inl e"
    and "get_exchange_rate w b t (emit (OfflineLookup b t) r) = (Inl e1, r1)"
    and "telegram w (length (trace r1)) = None"
  shows "\<exists>rest. trace (snd (process_custom_pair w user_id (Some text) r)) =
           trace r1 @ SendMessage (''Error: Currency conversion failed: '' @ str_exn e1 @ nl @ nl @
                                   ''Please try a different currency pair.'') [] # rest"
  using assms
  by (simp add: process_custom_pair_def custom_convert_both_fail pair_except_def
      conversion_failed_def pair_error_def send_message_def bot_call_def split: option.splits)

lemma custom_convert_send_fails:
  assumes "convert w b t = Inr x"
    and "telegram w (Suc (length (trace r))) = Some e"
  shows "\<exists>rest. trace (snd (custom_convert w amt b t r)) =
           trace r @ OfflineLookup b t #
             SendMessage (conversion_text amt b t (fmul (round64 w) (amount_value amt) x) x) [] #
             HttpGet (fetch_one_url w b t) # rest"
proof -
  let ?m = "SendMessage (conversion_text amt b t (fmul (round64 w) (amount_value amt) x) x) []"
  let ?r1 = "emit ?m (emit (OfflineLookup b t) r)"
  have first: "convert_reply w amt b t (JNum x) (emit (OfflineLookup b t) r) = (Some e, ?r1)"
    using assms(2) by (simp add: convert_reply_def multiply_def send_message_def bot_call_def)
  obtain res r2 where g: "get_exchange_rate w b t ?r1 = (res, r2)"
    by (cases "get_exchange_rate w b t ?r1")
  from get_exchange_rate_trace [of w b t ?r1] g
  obtain log where r2: "trace r2 = trace ?r1 @ HttpGet (fetch_one_url w b t) # log"
    by auto
  show ?thesis
  proof (cases res)
    case (Inl api_e)
    then have "custom_convert w amt b t r = (Some (conversion_failed api_e), r2)"
      using assms(1) first g by (simp add: custom_convert_def)
    then show ?thesis using r2 by simp
  next
    case (Inr rate)
    have "\<exists>rest. trace (snd (convert_reply w amt b t rate r2)) = trace r2 @ rest"
      by (simp add: convert_reply_def send_message_def bot_call_def split: sum.splits prod.splits)
    then obtain rest where c: "trace (snd (convert_reply w amt b t rate r2)) = trace r2 @ rest"
      by blast
    have "snd (custom_convert w amt b t r) = snd (convert_reply w amt b t rate r2)"
      using assms(1) first g Inr
      by (simp add: custom_convert_def split: prod.splits option.splits)
    then show ?thesis using c r2 by simp
  qed
qed

text \<open>
  Claim C1. The resolver makes no remote call when the offline table returns a rate.
  \<open>process_custom_pair\<close> does make one: its first \<open>try\<close> also holds the reply, so
  when the table returns a rate and sending the reply raises, the \<open>except\<close> meant for
  the table ("Try with FastForex API if CurrencyConverter fails") requests the rate
  from the remote service. The \<open>convert_\<close> branch of the callback handler, which
  replies outside that \<open>try\<close>, does not.
\<close>

theorem custom_pair_requests_after_offline_rate:
  assumes "parse_pair text = Some (p, b, t)"
    and "convert w b t = Inr x"
    and "telegram w (Suc (length (trace r))) = Some e"
  shows "\<exists>rest. trace (snd (process_custom_pair w user_id (Some text) r)) =
           trace r @ OfflineLookup b t #
             SendMessage (conversion_text (stored_amount (user_data r) user_id) b t
                            (fmul (round64 w) (amount_value (stored_amount (user_data r) user_id)) x)
                            x) [] #
             HttpGet (fetch_one_url w b t) # rest"
proof -
  let ?amt = "stored_amount (user_data r) user_id"
  obtain res r1 where c: "custom_convert w ?amt b t r = (res, r1)"
    by (cases "custom_convert w ?amt b t r")
  from custom_convert_send_fails [OF assms(2,3), of ?amt] c
  obtain rest where r1: "trace r1 = trace r @ OfflineLookup b t #
             SendMessage (conversion_text ?amt b t (fmul (round64 w) (amount_value ?amt) x) x) [] #
             HttpGet (fetch_one_url w b t) # rest"
    by auto
  show ?thesis
  proof (cases res)
    case None
    then show ?thesis using assms(1) c r1 by (simp add: process_custom_pair_def)
  next
    case (Some e')
    obtain more where "trace (snd (pair_except w ProcessCustomPair e' r1)) = trace r1 @ more"
      using pair_except_trace by blast
    then show ?thesis using assms(1) c r1 Some by (simp add: process_custom_pair_def)
  qed
qed

theorem custom_pair_requests_after_offline_rate_witness:
  "parse_pair ''USD/EUR'' = Some (''USD/EUR'', ''USD'', ''EUR'') \<and>
   convert flaky_world ''USD'' ''EUR'' = Inr (Fin (9 / 10)) \<and>
   telegram flaky_world (Suc (length (trace start))) = Some (Exn TransportError ''Read timed out.'') \<and>
   (\<exists>rest. trace (snd (process_custom_pair flaky_world 1 (Some ''USD/EUR'') start)) =
      OfflineLookup ''USD'' ''EUR'' #
      SendMessage (''*Conversion Result:*'' @ nl @ nl @ ''0.00 USD = 0.00 EUR'' @ nl @
                   ''Rate: 1 USD = 0.9000 EUR'' @ nl @ nl @
                   ''Use /convert to convert another amount.'') [] #
      HttpGet ''https://api.fastforex.io/fetch-one?from=USD&to=EUR&api_key=key'' # rest)"
proof -
  have h1: "parse_pair ''USD/EUR'' = Some (''USD/EUR'', ''USD'', ''EUR'')" by code_simp
  have h2: "convert flaky_world ''USD'' ''EUR'' = Inr (Fin (9 / 10))"
    by (simp add: flaky_world_def sample_world_def)
  have h3: "telegram flaky_world (Suc (length (trace start))) =
              Some (Exn TransportError ''Read timed out.'')"
    by (simp add: flaky_world_def sample_world_def start_def)
  have t: "conversion_text (stored_amount (user_data start) 1) ''USD'' ''EUR''
             (fmul (round64 flaky_world) (amount_value (stored_amount (user_data start) 1))
                (Fin (9 / 10))) (Fin (9 / 10)) =
           ''*Conversion Result:*'' @ nl @ nl @ ''0.00 USD = 0.00 EUR'' @ nl @
           ''Rate: 1 USD = 0.9000 EUR'' @ nl @ nl @ ''Use /convert to convert another amount.''"
    by code_simp
  have u: "fetch_one_url flaky_world ''USD'' ''EUR'' =
             ''https://api.fastforex.io/fetch-one?from=USD&to=EUR&api_key=key''"
    by code_simp
  have s: "trace start = []" by (simp add: start_def)
  from custom_pair_requests_after_offline_rate [OF h1 h2 h3, of 1]
  show ?thesis using h1 h2 h3 unfolding t u s by simp
qed

subsection \<open>Fixed-point numerals\<close>

lemma is_digit_digit_char: "is_digit (digit_char n)"
proof -
  have "(of_char (char_of (48 + n mod 10)) :: int) = (48 + n mod 10) mod 256"
    by (rule of_char_of)
  moreover have "0 \<le> n mod 10" "n mod 10 < 10" by simp_all
  ultimately have i: "(of_char (digit_char n) :: int) = 48 + n mod 10"
    by (simp add: digit_char_def)
  have "(of_char (digit_char n) :: nat) = nat (of_char (digit_char n) :: int)"
    by simp
  with i have "(of_char (digit_char n) :: nat) = nat (48 + n mod 10)" by simp
  moreover have "48 \<le> nat (48 + n mod 10)" "nat (48 + n mod 10) \<le> 57"
    using \<open>0 \<le> n mod 10\<close> \<open>n mod 10 < 10\<close> by linarith+
  ultimately show ?thesis by (simp add: is_digit_def)
qed

lemma digits_all_digit: "list_all is_digit (digits n)"
  by (induction n rule: digits.induct) (subst digits.simps, simp add: is_digit_digit_char)

lemma digits_not_Nil: "digits n \<noteq> []"
  by (subst digits.simps) simp

lemma digits_length: "0 < k \<Longrightarrow> n < 10 ^ k \<Longrightarrow> length (digits n) \<le> k"
proof (induction n arbitrary: k rule: digits.induct)
  case (1 n)
  show ?case
  proof (cases "n < 10")
    case True
    then show ?thesis using "1.prems" by (subst digits.simps) simp
  next
    case False
    with "1.prems" have "1 < k"
      by (cases "k = 1") auto
    then obtain j where k: "k = Suc j" and j: "0 < j" by (cases k) auto
    from "1.prems" k have "n div 10 < 10 ^ j" by simp
    with "1.IH" [OF False j] have "length (digits (n div 10)) \<le> j" by simp
    then show ?thesis using False k by (subst digits.simps) simp
  qed
qed

lemma is_digit_not_point: "is_digit c \<Longrightarrow> c \<noteq> CHR ''.''"
  by (auto simp: is_digit_def)

lemma decimals_point:
  assumes "list_all is_digit ip" and "list_all is_digit fp"
  shows "decimals (ip @ CHR ''.'' # fp) = Some (length fp)"
    and "decimals (CHR ''-'' # ip @ CHR ''.'' # fp) = Some (length fp)"
proof -
  from assms(1) have "dropWhile (\<lambda>c. c \<noteq> CHR ''.'') (ip @ CHR ''.'' # fp) = CHR ''.'' # fp"
    by (induction ip) (auto simp: is_digit_not_point)
  then show "decimals (ip @ CHR ''.'' # fp) = Some (length fp)"
    and "decimals (CHR ''-'' # ip @ CHR ''.'' # fp) = Some (length fp)"
    using assms(2) by (simp_all add: decimals_def)
qed

lemma fixed_shape:
  assumes "0 < d"
  shows "\<exists>ip fp. fixed d q = ip @ CHR ''.'' # fp \<and> list_all is_digit ip \<and>
           list_all is_digit fp \<and> length fp = d"
proof -
  let ?n = "round_half_even (q * 10 ^ d)"
  let ?frac = "digits (?n mod 10 ^ d)"
  have "?n mod 10 ^ d < 10 ^ d" by simp
  with assms have len: "length ?frac \<le> d" by (rule digits_length)
  have zero: "is_digit CHR ''0''" by (simp add: is_digit_def)
  let ?fp = "replicate (d - length ?frac) CHR ''0'' @ ?frac"
  have "fixed d q = digits (?n div 10 ^ d) @ CHR ''.'' # ?fp"
    using assms by (simp add: fixed_def Let_def)
  moreover have "list_all is_digit ?fp"
    using digits_all_digit [of "?n mod 10 ^ d"] zero by (auto simp: list_all_iff)
  moreover have "length ?fp = d" using len by simp
  ultimately show ?thesis using digits_all_digit by blast
qed

text \<open>A finite value formats with exactly the asked number of decimals.\<close>

lemma fmt_f_decimals: "0 < d \<Longrightarrow> decimals (fmt_f d (Fin q)) = Some d"
  using fixed_shape [of d q] fixed_shape [of d "- q"] by (auto simp: decimals_point)

lemma fmt_f_zero: "fmt_f 2 (Fin 0) = ''0.00''"
  by code_simp

subsection \<open>The conversion reply\<close>

lemma multiply_result:
  "multiply rnd amt rate = Inr (x, res) \<Longrightarrow>
   rate = JNum x \<and> res = fmul rnd (amount_value amt) x"
  by (auto simp: multiply_def split: jrate.splits option.splits)

lemma resolve_rate_result:
  assumes "resolve_rate w amt b t r = (Inr (x, res), r1)"
  shows "res = fmul (round64 w) (amount_value amt) x"
  using assms
  by (auto simp: resolve_rate_def split: sum.splits prod.splits dest: multiply_result)

lemma bot_call_trace: "trace (snd (bot_call w ef r)) = trace r @ [ef]"
  by (simp add: bot_call_def)







subsection \<open>The default amount\<close>

lemma fmul_zero: "0 \<le> x \<Longrightarrow> fmul rnd (Fin 0) (Fin x) = Fin 0"
  by (simp add: fmul_def is_zero_def is_inf_def)

lemma stored_amount_None:
  "stored_amount d user_id = None \<longleftrightarrow>
     d user_id = None \<or> (\<exists>s. d user_id = Some s \<and> amount s = None)"
  by (auto simp: stored_amount_def split: option.splits)

lemma callback_convert_delivered:
  assumes "startswith data ''convert_''"
    and "split_pair (remove_all ''convert_'' data) = Inr (b, t)"
    and "resolve_rate w (stored_amount (user_data r) user_id) b t r = (Inr (x, res), r1)"
    and "telegram w (length (trace r1)) = None"
    and "telegram w (Suc (length (trace r1))) = None"
  shows "handle_callback_query w user_id data r =
           (None, r1\<lparr>trace := trace r1 @
                      [SendMessage (conversion_text (stored_amount (user_data r) user_id) b t res x) [],
                       AnswerCallback]\<rparr>)"
  using assms
  by (simp add: handle_callback_query_def dispatch_def convert_branch_def send_message_def
      bot_call_def emit_def)

lemma custom_pair_offline_delivered:
  assumes "parse_pair text = Some (p, b, t)"
    and "convert w b t = Inr x"
    and "telegram w (Suc (length (trace r))) = None"
  shows "process_custom_pair w user_id (Some text) r =
           (None, r\<lparr>trace := trace r @
                     [OfflineLookup b t,
                      SendMessage (conversion_text (stored_amount (user_data r) user_id) b t
                                     (fmul (round64 w)
                                        (amount_value (stored_amount (user_data r) user_id)) x)
                                     x) []]\<rparr>)"
  using assms by (simp add: process_custom_pair_def custom_convert_offline_delivered)

text \<open>
  Claim C9. A pair chosen by a user who has no session, or a session without an amount,
  converts the default amount 0: with a finite rate that is not negative and a transport
  that delivers, the handler returns normally and the reply reads
  \<open>0.00 <BASE> = 0.00 <TARGET>\<close>, for the quick-select button (whichever source gave
  the rate) and for a custom pair.
\<close>

theorem default_amount_zero:
  "(user_data r user_id = None \<or> (\<exists>s. user_data r user_id = Some s \<and> amount s = None)) \<and> 0 \<le> x
   \<longrightarrow>
     (startswith data ''convert_'' \<and> split_pair (remove_all ''convert_'' data) = Inr (b, t) \<and>
      resolve_rate w None b t r = (Inr (Fin x, res), r1) \<and>
      telegram w (length (trace r1)) = None \<and> telegram w (Suc (length (trace r1))) = None \<longrightarrow>
        handle_callback_query w user_id data r =
          (None, r1\<lparr>trace := trace r1 @
                     [SendMessage
                        (''*Conversion Result:*'' @ nl @ nl @
                         ''0.00 '' @ b @ '' = 0.00 '' @ t @ nl @
                         ''Rate: 1 '' @ b @ '' = '' @ fmt_f 4 (Fin x) @ '' '' @ t @ nl @ nl @
                         ''Use /convert to convert another amount.'') [],
                      AnswerCallback]\<rparr>))
   \<and> (parse_pair text = Some (p, b, t) \<and> convert w b t = Inr (Fin x) \<and>
      telegram w (Suc (length (trace r))) = None \<longrightarrow>
        process_custom_pair w user_id (Some text) r =
          (None, r\<lparr>trace := trace r @
                    [OfflineLookup b t,
                     SendMessage
                       (''*Conversion Result:*'' @ nl @ nl @
                        ''0.00 '' @ b @ '' = 0.00 '' @ t @ nl @
                        ''Rate: 1 '' @ b @ '' = '' @ fmt_f 4 (Fin x) @ '' '' @ t @ nl @ nl @
                        ''Use /convert to convert another amount.'') []]\<rparr>))"
proof (intro impI conjI)
  assume h: "(user_data r user_id = None \<or> (\<exists>s. user_data r user_id = Some s \<and> amount s = None))
             \<and> 0 \<le> x"
  then have none: "stored_amount (user_data r) user_id = None"
    by (simp add: stored_amount_None)
  from h have x: "0 \<le> x" by simp
  {
    assume a: "startswith data ''convert_'' \<and>
      split_pair (remove_all ''convert_'' data) = Inr (b, t) \<and>
      resolve_rate w None b t r = (Inr (Fin x, res), r1) \<and>
      telegram w (length (trace r1)) = None \<and> telegram w (Suc (length (trace r1))) = None"
    then have "res = fmul (round64 w) (amount_value None) (Fin x)"
      using resolve_rate_result by blast
    then have res: "res = Fin 0" using x by (simp add: amount_value_def fmul_zero)
    from a callback_convert_delivered [of data b t w r user_id "Fin x" res r1]
    show "handle_callback_query w user_id data r =
          (None, r1\<lparr>trace := trace r1 @
                     [SendMessage
                        (''*Conversion Result:*'' @ nl @ nl @
                         ''0.00 '' @ b @ '' = 0.00 '' @ t @ nl @
                         ''Rate: 1 '' @ b @ '' = '' @ fmt_f 4 (Fin x) @ '' '' @ t @ nl @ nl @
                         ''Use /convert to convert another amount.'') [],
                      AnswerCallback]\<rparr>)"
      unfolding none res conversion_text_def amount_value_def option.case fmt_f_zero
      by simp
  }
  {
    assume a: "parse_pair text = Some (p, b, t) \<and> convert w b t = Inr (Fin x) \<and>
      telegram w (Suc (length (trace r))) = None"
    from a custom_pair_offline_delivered [of "text" p b t w "Fin x" r user_id]
    show "process_custom_pair w user_id (Some text) r =
          (None, r\<lparr>trace := trace r @
                    [OfflineLookup b t,
                     SendMessage
                       (''*Conversion Result:*'' @ nl @ nl @
                        ''0.00 '' @ b @ '' = 0.00 '' @ t @ nl @
                        ''Rate: 1 '' @ b @ '' = '' @ fmt_f 4 (Fin x) @ '' '' @ t @ nl @ nl @
                        ''Use /convert to convert another amount.'') []]\<rparr>)"
      unfolding none conversion_text_def amount_value_def option.case fmul_zero [OF x] fmt_f_zero
      by simp
  }
qed

theorem default_amount_zero_witness:
  "user_data start 7 = None \<and> (0::rat) \<le> 9 / 10 \<and>
   startswith ''convert_usd/eur'' ''convert_'' \<and>
   split_pair (remove_all ''convert_'' ''convert_usd/eur'') = Inr (''USD'', ''EUR'') \<and>
   resolve_rate sample_world None ''USD'' ''EUR'' start =
     (Inr (Fin (9 / 10), Fin 0), emit (OfflineLookup ''USD'' ''EUR'') start) \<and>
   handle_callback_query sample_world 7 ''convert_usd/eur'' start =
     (None, \<lparr>user_data = Map.empty, figs = [],
             trace = [OfflineLookup ''USD'' ''EUR'',
                      SendMessage (''*Conversion Result:*'' @ nl @ nl @ ''0.00 USD = 0.00 EUR'' @ nl @
                                   ''Rate: 1 USD = 0.9000 EUR'' @ nl @ nl @
                                   ''Use /convert to convert another amount.'') [],
                      AnswerCallback]\<rparr>) \<and>
   parse_pair ''usd/eur'' = Some (''USD/EUR'', ''USD'', ''EUR'') \<and>
   convert sample_world ''USD'' ''EUR'' = Inr (Fin (9 / 10)) \<and>
   process_custom_pair sample_world 7 (Some ''usd/eur'') start =
     (None, \<lparr>user_data = Map.empty, figs = [],
             trace = [OfflineLookup ''USD'' ''EUR'',
                      SendMessage (''*Conversion Result:*'' @ nl @ nl @ ''0.00 USD = 0.00 EUR'' @ nl @
                                   ''Rate: 1 USD = 0.9000 EUR'' @ nl @ nl @
                                   ''Use /convert to convert another amount.'') []]\<rparr>)"
proof -
  have g1: "user_data start 7 = None" by (simp add: start_def)
  have g2: "(0::rat) \<le> 9 / 10" by simp
  have h1: "startswith ''convert_usd/eur'' ''convert_''" by code_simp
  have h2: "split_pair (remove_all ''convert_'' ''convert_usd/eur'') = Inr (''USD'', ''EUR'')"
    by code_simp
  have h4: "convert sample_world ''USD'' ''EUR'' = Inr (Fin (9 / 10))"
    by (simp add: sample_world_def)
  have h3: "resolve_rate sample_world None ''USD'' ''EUR'' start =
     (Inr (Fin (9 / 10), Fin 0), emit (OfflineLookup ''USD'' ''EUR'') start)"
    using h4 by (simp add: resolve_rate_offline amount_value_def fmul_zero)
  have h5: "parse_pair ''usd/eur'' = Some (''USD/EUR'', ''USD'', ''EUR'')" by code_simp
  have tg: "\<And>k. telegram sample_world k = None" by (simp add: sample_world_def)
  have n: "fmt_f 4 (Fin (9 / 10)) = ''0.9000''" by code_simp
  note inst = default_amount_zero [where w = sample_world and r = start and user_id = 7
      and x = "9 / 10" and b = "''USD''" and t = "''EUR''"]
  from inst [of "''convert_usd/eur''" "Fin 0" "emit (OfflineLookup ''USD'' ''EUR'') start"]
    g1 g2 h1 h2 h3 tg
  have c1: "handle_callback_query sample_world 7 ''convert_usd/eur'' start =
     (None, \<lparr>user_data = Map.empty, figs = [],
             trace = [OfflineLookup ''USD'' ''EUR'',
                      SendMessage (''*Conversion Result:*'' @ nl @ nl @ ''0.00 USD = 0.00 EUR'' @ nl @
                                   ''Rate: 1 USD = 0.9000 EUR'' @ nl @ nl @
                                   ''Use /convert to convert another amount.'') [],
                      AnswerCallback]\<rparr>)"
    unfolding n by (simp add: start_def emit_def)
  from inst [of _ _ _ "''usd/eur''" "''USD/EUR''"] g1 g2 h5 h4 tg
  have c2: "process_custom_pair sample_world 7 (Some ''usd/eur'') start =
     (None, \<lparr>user_data = Map.empty, figs = [],
             trace = [OfflineLookup ''USD'' ''EUR'',
                      SendMessage (''*Conversion Result:*'' @ nl @ nl @ ''0.00 USD = 0.00 EUR'' @ nl @
                                   ''Rate: 1 USD = 0.9000 EUR'' @ nl @ nl @
                                   ''Use /convert to convert another amount.'') []]\<rparr>)"
    unfolding n by (simp add: start_def)
  from g1 g2 h1 h2 h3 c1 h5 h4 c2 show ?thesis by blast
qed

subsection \<open>Traces only grow\<close>

lemma get_historical_rates_trace:
  "\<exists>rest. trace (snd (get_historical_rates w b t s e r)) =
     trace r @ HttpGet (time_series_url w b t s e) # rest"
  by (simp add: get_historical_rates_def Let_def split: sum.splits option.splits)

lemma get_historical_rates_user_data [simp]:
  "user_data (snd (get_historical_rates w b t s e r)) = user_data r"
  by (simp add: get_historical_rates_def Let_def split: sum.splits option.splits)

lemma get_historical_rates_figs [simp]:
  "figs (snd (get_historical_rates w b t s e r)) = figs r"
  by (simp add: get_historical_rates_def Let_def split: sum.splits option.splits)

lemma trace_plt [simp]:
  "trace (plt_figure fig r) = trace r"
  "trace (plt_annotate note r) = trace r"
  "trace (plt_close r) = trace r"
  by (simp_all add: plt_figure_def plt_annotate_def plt_close_def split: list.splits)

lemma user_data_plt [simp]:
  "user_data (plt_figure fig r) = user_data r"
  "user_data (plt_annotate note r) = user_data r"
  "user_data (plt_close r) = user_data r"
  by (simp_all add: plt_figure_def plt_annotate_def plt_close_def split: list.splits)

lemma draw_graph_trace_eq:
  "trace (snd (draw_graph w b t s e r)) = trace (snd (get_historical_rates w b t s e r))"
  by (simp add: draw_graph_def Let_def split: prod.splits sum.splits)

lemma draw_graph_trace:
  "\<exists>rest. trace (snd (draw_graph w b t s e r)) = trace r @ rest"
  unfolding draw_graph_trace_eq using get_historical_rates_trace [of w b t s e r] by blast

lemma create_currency_graph_trace:
  "\<exists>rest. trace (snd (create_currency_graph w b t n r)) = trace r @ rest"
proof (cases "date_ago w 0")
  case (Inl e)
  then show ?thesis by (simp add: create_currency_graph_def)
next
  case end_date: (Inr e)
  show ?thesis
  proof (cases "date_ago w n")
    case (Inl x)
    then show ?thesis using end_date by (simp add: create_currency_graph_def)
  next
    case (Inr s)
    obtain res r1 where d: "draw_graph w b t s e r = (res, r1)"
      by (cases "draw_graph w b t s e r")
    with draw_graph_trace [of w b t s e r] obtain rest where "trace r1 = trace r @ rest"
      by auto
    then show ?thesis using end_date Inr d
      by (cases res) (simp_all add: create_currency_graph_def)
  qed
qed

lemma send_graph_trace:
  "\<exists>rest. trace (snd (send_graph w b t n r)) = trace r @ rest"
proof -
  obtain res r1 where c: "create_currency_graph w b t n r = (res, r1)"
    by (cases "create_currency_graph w b t n r")
  with create_currency_graph_trace [of w b t n r]
  obtain rest where "trace r1 = trace r @ rest" by auto
  then show ?thesis using c
    by (cases res) (simp_all add: send_graph_def bot_call_def split: option.splits)
qed

lemma handle_callback_query_trace:
  "\<exists>rest. trace (snd (handle_callback_query w user_id data r)) =
     trace (snd (dispatch w user_id data r)) @ rest"
  by (cases "dispatch w user_id data r")
    (auto simp: handle_callback_query_def bot_call_def send_message_def split: option.splits)

subsection \<open>The timeframe callback\<close>

lemma dispatch_timeframe:
  assumes "startswith data ''timeframe_''"
  shows "dispatch w user_id data r = timeframe_branch w user_id data r"
proof -
  from assms have "data = ''timeframe_'' @ drop (length ''timeframe_'') data"
    unfolding startswith_def by (metis append_take_drop_id)
  then obtain rest where "data = ''timeframe_'' @ rest" ..
  then show ?thesis by (simp add: dispatch_def startswith_def)
qed

lemma timeframe_branch_start:
  assumes "split_on CHR ''_'' data = [u, q, d]"
    and "py_int d = Some n"
    and "split_pair (chosen_pair (user_data r) user_id q) = Inr (b, t)"
  shows "\<exists>rest. trace (snd (timeframe_branch w user_id data r)) =
           trace r @
           SendMessage (''Generating '' @ show_int n @ ''-day graph for '' @ b @ ''/'' @ t @
                        ''...'' @ nl @ ''This may take a moment.'') [] # rest"
proof -
  let ?m = "SendMessage (''Generating '' @ show_int n @ ''-day graph for '' @ b @ ''/'' @ t @
                        ''...'' @ nl @ ''This may take a moment.'') []"
  show ?thesis
  proof (cases "telegram w (length (trace r))")
    case (Some e)
    then show ?thesis using assms
      by (simp add: timeframe_branch_def send_message_def bot_call_def)
  next
    case None
    obtain res r2 where s: "send_graph w b t n (emit ?m r) = (res, r2)"
      by (cases "send_graph w b t n (emit ?m r)")
    with send_graph_trace [of w b t n "emit ?m r"]
    obtain rest where r2: "trace r2 = trace r @ ?m # rest" by auto
    show ?thesis using assms None s r2
      by (cases res) (simp_all add: timeframe_branch_def send_message_def bot_call_def)
  qed
qed

lemma timeframe_branch_pair_only:
  assumes "split_on CHR ''_'' data = [u, q, d]"
    and "split_on CHR ''_'' data' = [u', q', d]"
    and "chosen_pair (user_data r) user_id q = chosen_pair (user_data r) user_id q'"
  shows "timeframe_branch w user_id data r = timeframe_branch w user_id data' r"
  unfolding timeframe_branch_def assms list.case ..

lemma chosen_pair_stored:
  "user_data r user_id = Some s \<Longrightarrow> graph_pair s = Some p \<Longrightarrow>
   chosen_pair (user_data r) user_id q = p"
  by (simp add: chosen_pair_def)

lemma chosen_pair_callback:
  "user_data r user_id = None \<or> (\<exists>s. user_data r user_id = Some s \<and> graph_pair s = None) \<Longrightarrow>
   chosen_pair (user_data r) user_id q = q"
  by (auto simp: chosen_pair_def)

subsection \<open>The chart builder and its figure\<close>

lemma figs_plt [simp]:
  "figs (plt_figure fig r) = fig # figs r"
  "figs (plt_close (plt_annotate note (plt_figure fig r))) = figs r"
  by (simp_all add: plt_figure_def plt_annotate_def plt_close_def)

lemma draw_graph_cases:
  assumes "get_historical_rates w b t s e r = (Inr series, r1)"
  shows "draw_graph w b t s e r =
           (case rates_of series t (sort (map fst series)) of
              Inl ex \<Rightarrow> (Inl ex, r1)
            | Inr rates \<Rightarrow>
                (case current_label (sort (map fst series)) rates of
                   Inl ex \<Rightarrow>
                     (Inl ex,
                      plt_figure \<lparr>xs = sort (map fst series), ys = rates,
                                  title = b @ '' to '' @ t @ '' Exchange Rate'',
                                  ylabel = ''1 '' @ b @ '' = X '' @ t,
                                  annotation = None\<rparr> r1)
                 | Inr note \<Rightarrow>
                     (Inr \<lparr>xs = sort (map fst series), ys = rates,
                           title = b @ '' to '' @ t @ '' Exchange Rate'',
                           ylabel = ''1 '' @ b @ '' = X '' @ t,
                           annotation = note\<rparr>,
                      plt_close (plt_annotate note
                        (plt_figure \<lparr>xs = sort (map fst series), ys = rates,
                                     title = b @ '' to '' @ t @ '' Exchange Rate'',
                                     ylabel = ''1 '' @ b @ '' = X '' @ t,
                                     annotation = None\<rparr> r1)))))"
  using assms by (simp add: draw_graph_def Let_def split: sum.splits)

text \<open>A chart that is returned leaves no figure behind, and neither does a failure of
  the fetch or a date without the target currency.\<close>

lemma draw_graph_success_closes:
  assumes "draw_graph w b t s e r = (Inr img, r')"
  shows "figs r' = figs r"
proof -
  obtain res r1 where g: "get_historical_rates w b t s e r = (res, r1)"
    by (cases "get_historical_rates w b t s e r")
  have f1: "figs r1 = figs r"
    using get_historical_rates_figs [of w b t s e r] g by simp
  show ?thesis
  proof (cases res)
    case (Inl ex)
    then show ?thesis using assms g by (simp add: draw_graph_def)
  next
    case (Inr series)
    with g have "get_historical_rates w b t s e r = (Inr series, r1)" by simp
    from draw_graph_cases [OF this] assms f1 show ?thesis
      by (auto split: sum.splits)
  qed
qed

lemma create_currency_graph_success_closes:
  assumes "create_currency_graph w b t n r = (Inr img, r')"
  shows "figs r' = figs r"
  using assms draw_graph_success_closes
  by (fastforce simp: create_currency_graph_def split: sum.splits prod.splits)

lemma draw_graph_fetch_fails:
  assumes "get_historical_rates w b t s e r = (Inl ex, r1)"
  shows "draw_graph w b t s e r = (Inl ex, r1)" and "figs r1 = figs r"
  using assms get_historical_rates_figs [of w b t s e r] by (simp_all add: draw_graph_def)

text \<open>
  Claim C7. Every call of the chart builder closes its figure before it returns, also
  when it fails. The code closes the figure on the path that returns the image only:
  when the series is fetched and drawn and the label of the last point cannot be
  formatted (a rate that is \<open>null\<close> or a string), the exception leaves
  \<open>create_currency_graph\<close> with the new figure still open in pyplot.
\<close>

theorem chart_builder_leaves_figure_open:
  assumes "date_ago w 0 = Inr e" and "date_ago w n = Inr s"
    and "get_historical_rates w b t s e r = (Inr series, r1)"
    and "rates_of series t (sort (map fst series)) = Inr rates"
    and "current_label (sort (map fst series)) rates = Inl ex"
  shows "fst (create_currency_graph w b t n r) =
           Inl (Exn PlainException (''Failed to create graph: '' @ str_exn ex))
       \<and> figs (snd (create_currency_graph w b t n r)) =
           \<lparr>xs = sort (map fst series), ys = rates,
            title = b @ '' to '' @ t @ '' Exchange Rate'',
            ylabel = ''1 '' @ b @ '' = X '' @ t,
            annotation = None\<rparr> # figs r"
proof -
  have "figs r1 = figs r"
    using get_historical_rates_figs [of w b t s e r] assms(3) by simp
  then show ?thesis
    using assms(1,2,4,5) draw_graph_cases [OF assms(3)]
    by (simp add: create_currency_graph_def)
qed

theorem chart_builder_leaves_figure_open_witness:
  "date_ago null_world 0 = Inr ''2024-01-03'' \<and> date_ago null_world 7 = Inr ''2024-01-03'' \<and>
   get_historical_rates null_world ''USD'' ''EUR'' ''2024-01-03'' ''2024-01-03'' start =
     (Inr [(''2024-01-01'', [(''EUR'', JNull)])],
      emit (HttpGet (time_series_url null_world ''USD'' ''EUR'' ''2024-01-03'' ''2024-01-03'')) start) \<and>
   rates_of [(''2024-01-01'', [(''EUR'', JNull)])] ''EUR''
     (sort (map fst [(''2024-01-01'', [(''EUR'', JNull)])])) = Inr [JNull] \<and>
   current_label (sort (map fst [(''2024-01-01'', [(''EUR'', JNull)])])) [JNull] =
     Inl (Exn TypeError ''unsupported format string passed to NoneType.__format__'') \<and>
   fst (create_currency_graph null_world ''USD'' ''EUR'' 7 start) =
     Inl (Exn PlainException
       ''Failed to create graph: unsupported format string passed to NoneType.__format__'') \<and>
   figs start = [] \<and>
   figs (snd (create_currency_graph null_world ''USD'' ''EUR'' 7 start)) =
     [\<lparr>xs = [''2024-01-01''], ys = [JNull], title = ''USD to EUR Exchange Rate'',
       ylabel = ''1 USD = X EUR'', annotation = None\<rparr>]"
proof -
  have h1: "date_ago null_world 0 = Inr ''2024-01-03''"
    and h2: "date_ago null_world 7 = Inr ''2024-01-03''"
    by (simp_all add: null_world_def sample_world_def)
  have h3: "get_historical_rates null_world ''USD'' ''EUR'' ''2024-01-03'' ''2024-01-03'' start =
     (Inr [(''2024-01-01'', [(''EUR'', JNull)])],
      emit (HttpGet (time_series_url null_world ''USD'' ''EUR'' ''2024-01-03'' ''2024-01-03'')) start)"
    by (simp add: get_historical_rates_def null_world_def sample_world_def)
  have srt: "sort (map fst [(''2024-01-01'', [(''EUR'', JNull :: jrate)])]) = [''2024-01-01'']"
    by simp
  have h4: "rates_of [(''2024-01-01'', [(''EUR'', JNull)])] ''EUR''
     (sort (map fst [(''2024-01-01'', [(''EUR'', JNull)])])) = Inr [JNull]"
    unfolding srt by simp
  have h5: "current_label (sort (map fst [(''2024-01-01'', [(''EUR'', JNull)])])) [JNull] =
     Inl (Exn TypeError ''unsupported format string passed to NoneType.__format__'')"
    unfolding srt by (simp add: current_label_def format_4f_def)
  have f: "figs start = []" by (simp add: start_def)
  from chart_builder_leaves_figure_open [OF h1 h2 h3 h4 h5]
  have "fst (create_currency_graph null_world ''USD'' ''EUR'' 7 start) =
     Inl (Exn PlainException
       ''Failed to create graph: unsupported format string passed to NoneType.__format__'') \<and>
   figs (snd (create_currency_graph null_world ''USD'' ''EUR'' 7 start)) =
     [\<lparr>xs = [''2024-01-01''], ys = [JNull], title = ''USD to EUR Exchange Rate'',
       ylabel = ''1 USD = X EUR'', annotation = None\<rparr>]"
    unfolding srt f by simp
  with h1 h2 h3 h4 h5 f show ?thesis by blast
qed

subsection \<open>ISO dates sort chronologically\<close>

lemma foldl_digits:
  "foldl (\<lambda>n c. 10 * n + digit_val c) a ds =
     a * 10 ^ length ds + foldl (\<lambda>n c. 10 * n + digit_val c) 0 ds"
proof (induction ds arbitrary: a)
  case Nil
  then show ?case by simp
next
  case (Cons c cs)
  have "foldl (\<lambda>n c. 10 * n + digit_val c) a (c # cs) =
          (10 * a + digit_val c) * 10 ^ length cs + foldl (\<lambda>n c. 10 * n + digit_val c) 0 cs"
    using Cons.IH [of "10 * a + digit_val c"] by simp
  moreover have "foldl (\<lambda>n c. 10 * n + digit_val c) 0 (c # cs) =
          digit_val c * 10 ^ length cs + foldl (\<lambda>n c. 10 * n + digit_val c) 0 cs"
    using Cons.IH [of "digit_val c"] by simp
  ultimately show ?case by (simp add: algebra_simps)
qed

lemma int_of_digits_Cons:
  "int_of_digits (c # cs) = digit_val c * 10 ^ length cs + int_of_digits cs"
  using foldl_digits [of "digit_val c" cs] by (simp add: int_of_digits_def)

lemma int_of_digits_Nil [simp]: "int_of_digits [] = 0"
  by (simp add: int_of_digits_def)

lemma of_char_int_nat: "(of_char c :: int) = int (of_char c :: nat)"
  by (simp add: of_nat_of_char)

lemma digit_val_range: "is_digit c \<Longrightarrow> 0 \<le> digit_val c \<and> digit_val c \<le> 9"
  by (auto simp: is_digit_def digit_val_def of_char_int_nat)

lemma digit_val_less: "c < d \<longleftrightarrow> digit_val c < digit_val d"
  by (simp add: less_char_def digit_val_def of_char_int_nat)

lemma int_of_digits_range:
  "list_all is_digit ds \<Longrightarrow> 0 \<le> int_of_digits ds \<and> int_of_digits ds < 10 ^ length ds"
proof (induction ds)
  case Nil
  then show ?case by simp
next
  case (Cons c cs)
  then have v: "0 \<le> digit_val c" "digit_val c \<le> 9"
    and r: "0 \<le> int_of_digits cs" "int_of_digits cs < 10 ^ length cs"
    using digit_val_range by auto
  let ?p = "(10::int) ^ length cs"
  have "digit_val c * ?p \<le> 9 * ?p"
    using v(2) by (simp add: mult_right_mono)
  then have up: "digit_val c * ?p + int_of_digits cs < 10 * ?p"
    using r(2) by linarith
  have "0 \<le> digit_val c * ?p" using v(1) by simp
  then have lo: "0 \<le> digit_val c * ?p + int_of_digits cs"
    using r(1) by linarith
  from lo up show ?case by (simp add: int_of_digits_Cons)
qed

lemma digits_order:
  "length ds = length es \<Longrightarrow> list_all is_digit ds \<Longrightarrow> list_all is_digit es \<Longrightarrow>
   ds \<le> es \<longleftrightarrow> int_of_digits ds \<le> int_of_digits es"
proof (induction ds es rule: list_induct2)
  case Nil
  then show ?case by simp
next
  case (Cons c cs d ds)
  let ?p = "(10::int) ^ length cs"
  from Cons have rc: "0 \<le> int_of_digits cs" "int_of_digits cs < ?p"
    and rd: "0 \<le> int_of_digits ds" "int_of_digits ds < ?p"
    using int_of_digits_range [of cs] int_of_digits_range [of ds] by auto
  from Cons have IH: "cs \<le> ds \<longleftrightarrow> int_of_digits cs \<le> int_of_digits ds" by simp
  have len: "length ds = length cs" using Cons.hyps by simp
  consider "c < d" | "c = d" | "d < c" by (rule linorder_cases)
  then show ?case
  proof cases
    case 1
    then have "digit_val c + 1 \<le> digit_val d" by (simp add: digit_val_less)
    then have "(digit_val c + 1) * ?p \<le> digit_val d * ?p" by (simp add: mult_right_mono)
    then have "digit_val c * ?p + int_of_digits cs \<le> digit_val d * ?p + int_of_digits ds"
      using rc rd by (simp add: algebra_simps)
    then show ?thesis using 1 by (simp add: int_of_digits_Cons len)
  next
    case 2
    then show ?thesis using IH by (simp add: int_of_digits_Cons len)
  next
    case 3
    then have "digit_val d + 1 \<le> digit_val c" by (simp add: digit_val_less)
    then have "(digit_val d + 1) * ?p \<le> digit_val c * ?p" by (simp add: mult_right_mono)
    then have "digit_val d * ?p + int_of_digits ds < digit_val c * ?p + int_of_digits cs"
      using rc rd by (simp add: algebra_simps)
    moreover have "\<not> c # cs \<le> d # ds" using 3 by auto
    ultimately show ?thesis by (simp add: int_of_digits_Cons len)
  qed
qed

lemma iso_shape_chars:
  assumes "iso_shape s"
  shows "\<exists>a b c d e f g h. s = [a, b, c, d, CHR ''-'', e, f, CHR ''-'', g, h] \<and>
           list_all is_digit [a, b, c, d, e, f, g, h]"
proof -
  from assms have "length s = 10" by (simp add: iso_shape_def)
  then obtain a b c d x e f y g h where s: "s = [a, b, c, d, x, e, f, y, g, h]"
    by (auto simp: length_Suc_conv eval_nat_numeral)
  with assms show ?thesis by (auto simp: iso_shape_def eval_nat_numeral)
qed

lemma dash_not_digit: "\<not> is_digit CHR ''-''"
  by (simp add: is_digit_def)

lemma iso_order:
  assumes "iso_shape s" and "iso_shape u"
  shows "s \<le> u \<longleftrightarrow> date_number s \<le> date_number u"
proof -
  from iso_shape_chars [OF assms(1)] obtain a b c d e f g h where
    s: "s = [a, b, c, d, CHR ''-'', e, f, CHR ''-'', g, h]"
    and ds: "list_all is_digit [a, b, c, d, e, f, g, h]" by blast
  from iso_shape_chars [OF assms(2)] obtain a' b' c' d' e' f' g' h' where
    u: "u = [a', b', c', d', CHR ''-'', e', f', CHR ''-'', g', h']"
    and du: "list_all is_digit [a', b', c', d', e', f', g', h']" by blast
  have fs: "filter is_digit s = [a, b, c, d, e, f, g, h]"
    using ds by (simp add: s dash_not_digit)
  have fu: "filter is_digit u = [a', b', c', d', e', f', g', h']"
    using du by (simp add: u dash_not_digit)
  have "s \<le> u \<longleftrightarrow> [a, b, c, d, e, f, g, h] \<le> [a', b', c', d', e', f', g', h']"
    by (simp add: s u)
  also have "\<dots> \<longleftrightarrow> int_of_digits [a, b, c, d, e, f, g, h] \<le>
                     int_of_digits [a', b', c', d', e', f', g', h']"
    using ds du by (intro digits_order) simp_all
  finally show ?thesis by (simp add: date_number_def fs fu)
qed

lemma sorted_iso_dates:
  assumes "list_all iso_shape ds" and "sorted ds"
  shows "sorted (map date_number ds)"
proof -
  have "sorted_wrt (\<lambda>x y. date_number x \<le> date_number y) ds"
  proof (rule sorted_wrt_mono_rel [where P = "(\<le>)"])
    fix x y assume "x \<in> set ds" "y \<in> set ds" "x \<le> y"
    then show "date_number x \<le> date_number y"
      using assms(1) iso_order [of x y] by (simp add: list_all_iff)
  next
    show "sorted_wrt (\<le>) ds" using assms(2) by simp
  qed
  then show ?thesis by (simp add: sorted_map)
qed

lemma sorted_le_last: "sorted ds \<Longrightarrow> d \<in> set ds \<Longrightarrow> d \<le> last ds"
  by (induction ds) (auto split: if_splits)

subsection \<open>What the chart shows\<close>

lemma lookup_map_of: "lookup kvs k = map_of kvs k"
  by (induction kvs) auto

lemma lookup_distinct:
  "distinct (map fst kvs) \<Longrightarrow> lookup kvs k = Some v \<longleftrightarrow> (k, v) \<in> set kvs"
  by (simp add: lookup_map_of)

lemma rates_of_aligned:
  "rates_of series t ds = Inr rates \<Longrightarrow>
   list_all2 (\<lambda>d v. \<exists>row. lookup series d = Some row \<and> lookup row t = Some v) ds rates"
proof (induction ds arbitrary: rates)
  case Nil
  then show ?case by simp
next
  case (Cons d ds)
  then show ?case
    by (auto split: option.splits sum.splits)
qed

lemma rates_of_length: "rates_of series t ds = Inr rates \<Longrightarrow> length rates = length ds"
  by (drule rates_of_aligned) (simp add: list_all2_lengthD)

lemma rates_of_cong:
  "(\<And>d. lookup series' d = lookup series d) \<Longrightarrow>
   rates_of series' t ds = rates_of series t ds"
  by (induction ds) (simp_all split: option.splits)

lemma same_items_same_chart:
  assumes "distinct (map fst series)" and "distinct (map fst series')"
    and "set series' = set series"
  shows "sort (map fst series') = sort (map fst series)"
    and "rates_of series' t ds = rates_of series t ds"
proof -
  have "set (map fst series') = set (map fst series)"
    using assms(3) by simp
  then show "sort (map fst series') = sort (map fst series)"
    using assms(1,2)
    by (intro sorted_distinct_set_unique) simp_all
  have "map_of series' = map_of series"
    using assms by (simp add: map_of_inject_set)
  then show "rates_of series' t ds = rates_of series t ds"
    by (intro rates_of_cong) (simp add: lookup_map_of)
qed

lemma create_currency_graph_image:
  assumes "date_ago w 0 = Inr e" and "date_ago w n = Inr s"
    and "get_historical_rates w b t s e r = (Inr series, r1)"
    and "create_currency_graph w b t n r = (Inr img, r')"
  shows "\<exists>rates note.
           rates_of series t (sort (map fst series)) = Inr rates \<and>
           current_label (sort (map fst series)) rates = Inr note \<and>
           img = \<lparr>xs = sort (map fst series), ys = rates,
                  title = b @ '' to '' @ t @ '' Exchange Rate'',
                  ylabel = ''1 '' @ b @ '' = X '' @ t,
                  annotation = note\<rparr>"
  using assms(1,2,4) draw_graph_cases [OF assms(3)]
  by (auto simp: create_currency_graph_def split: sum.splits)

lemma current_label_result:
  assumes "current_label dates rates = Inr note" and "length rates = length dates"
  shows "(dates = [] \<longrightarrow> note = None)
       \<and> (dates \<noteq> [] \<longrightarrow>
            (\<exists>x. last rates = JNum x \<and> note = Some (''Current: '' @ fmt_f 4 x, last dates)))"
  using assms
  by (auto simp: current_label_def format_4f_def split: if_splits sum.splits jrate.splits)

text \<open>
  Claim C4. For a series that the time-series fetch returns (a dict, so its dates are
  distinct) and a chart that the builder returns: the dates are plotted in sorted order,
  each once and with its own rate, whatever the order they came in; sorted ISO dates
  are in chronological order; and the chart is labelled exactly when the series has a
  point, with "Current: " and the rate of the last date as \<open>.4f\<close> formats it, which
  for a finite rate is a numeral with exactly 4 decimals.
\<close>

theorem chart_sorted_and_labelled:
  assumes "date_ago w 0 = Inr e" and "date_ago w n = Inr s"
    and "get_historical_rates w b t s e r = (Inr series, r1)"
    and "distinct (map fst series)"
    and "create_currency_graph w b t n r = (Inr img, r')"
  shows "sorted (xs img) \<and> distinct (xs img) \<and> set (xs img) = set (map fst series)
       \<and> list_all2 (\<lambda>d v. \<exists>row. (d, row) \<in> set series \<and> lookup row t = Some v) (xs img) (ys img)
       \<and> (\<forall>series'. distinct (map fst series') \<and> set series' = set series \<longrightarrow>
              sort (map fst series') = xs img \<and> rates_of series' t (xs img) = Inr (ys img))
       \<and> (list_all iso_shape (map fst series) \<longrightarrow> sorted (map date_number (xs img)))
       \<and> (series = [] \<longrightarrow> annotation img = None)
       \<and> (series \<noteq> [] \<longrightarrow>
            (\<exists>x. last (ys img) = JNum x \<and>
                 annotation img = Some (''Current: '' @ fmt_f 4 x, last (xs img)) \<and>
                 (\<forall>d\<in>set (xs img). d \<le> last (xs img)) \<and>
                 (\<forall>q. x = Fin q \<longrightarrow> decimals (fmt_f 4 x) = Some 4)))"
proof -
  let ?dates = "sort (map fst series)"
  from create_currency_graph_image [OF assms(1,2,3,5)] obtain rates lbl where
    rates: "rates_of series t ?dates = Inr rates"
    and lbl: "current_label ?dates rates = Inr lbl"
    and img: "img = \<lparr>xs = ?dates, ys = rates,
                     title = b @ '' to '' @ t @ '' Exchange Rate'',
                     ylabel = ''1 '' @ b @ '' = X '' @ t,
                     annotation = lbl\<rparr>"
    by blast
  have x: "xs img = ?dates" and y: "ys img = rates" and a: "annotation img = lbl"
    by (simp_all add: img)
  have len: "length rates = length ?dates"
    using rates by (rule rates_of_length)
  have c1: "sorted (xs img)" "distinct (xs img)" "set (xs img) = set (map fst series)"
    using assms(4) by (simp_all add: x)
  have c2: "list_all2 (\<lambda>d v. \<exists>row. (d, row) \<in> set series \<and> lookup row t = Some v)
              (xs img) (ys img)"
    using rates_of_aligned [OF rates] assms(4)
    by (simp add: x y lookup_distinct)
  have c3: "\<forall>series'. distinct (map fst series') \<and> set series' = set series \<longrightarrow>
              sort (map fst series') = xs img \<and> rates_of series' t (xs img) = Inr (ys img)"
    using same_items_same_chart [OF assms(4)] rates by (simp add: x y)
  have c4: "list_all iso_shape (map fst series) \<longrightarrow> sorted (map date_number (xs img))"
  proof
    assume "list_all iso_shape (map fst series)"
    then have "list_all iso_shape ?dates" by (simp add: list_all_iff)
    then show "sorted (map date_number (xs img))"
      unfolding x by (rule sorted_iso_dates) simp
  qed
  from current_label_result [OF lbl len]
  have e1: "?dates = [] \<longrightarrow> lbl = None"
    and e2: "?dates \<noteq> [] \<longrightarrow>
            (\<exists>x. last rates = JNum x \<and> lbl = Some (''Current: '' @ fmt_f 4 x, last ?dates))"
    by blast+
  have empty: "?dates = [] \<longleftrightarrow> series = []"
    by (metis length_0_conv length_map length_sort)
  have c5: "series = [] \<longrightarrow> annotation img = None"
    using e1 empty by (simp add: a)
  have c6: "series \<noteq> [] \<longrightarrow>
            (\<exists>x. last (ys img) = JNum x \<and>
                 annotation img = Some (''Current: '' @ fmt_f 4 x, last (xs img)) \<and>
                 (\<forall>d\<in>set (xs img). d \<le> last (xs img)) \<and>
                 (\<forall>q. x = Fin q \<longrightarrow> decimals (fmt_f 4 x) = Some 4))"
  proof
    assume "series \<noteq> []"
    with e2 empty obtain v where
      v: "last rates = JNum v" "lbl = Some (''Current: '' @ fmt_f 4 v, last ?dates)"
      by blast
    have "\<forall>d\<in>set (xs img). d \<le> last (xs img)"
      using c1(1) sorted_le_last by blast
    moreover have "\<forall>q. v = Fin q \<longrightarrow> decimals (fmt_f 4 v) = Some 4"
      using fmt_f_decimals [of 4] by simp
    ultimately show "\<exists>x. last (ys img) = JNum x \<and>
                 annotation img = Some (''Current: '' @ fmt_f 4 x, last (xs img)) \<and>
                 (\<forall>d\<in>set (xs img). d \<le> last (xs img)) \<and>
                 (\<forall>q. x = Fin q \<longrightarrow> decimals (fmt_f 4 x) = Some 4)"
      using v by (auto simp: x y a)
  qed
  from c1 c2 c3 c4 c5 c6 show ?thesis by blast
qed


theorem chart_sorted_and_labelled_witness:
  "date_ago sample_world 0 = Inr ''2024-01-03'' \<and> date_ago sample_world 7 = Inr ''2024-01-03'' \<and>
   get_historical_rates sample_world ''USD'' ''EUR'' ''2024-01-03'' ''2024-01-03'' start =
     (Inr [(''2024-01-03'', [(''EUR'', JNum (Fin (91 / 100)))]),
           (''2024-01-01'', [(''EUR'', JNum (Fin (9 / 10)))]),
           (''2024-01-02'', [(''EUR'', JNum (Fin (23 / 25)))])],
      emit (HttpGet (time_series_url sample_world ''USD'' ''EUR'' ''2024-01-03'' ''2024-01-03''))
        start) \<and>
   distinct (map fst [(''2024-01-03'', [(''EUR'', JNum (Fin (91 / 100)))]),
                      (''2024-01-01'', [(''EUR'', JNum (Fin (9 / 10)))]),
                      (''2024-01-02'', [(''EUR'', JNum (Fin (23 / 25)))])]) \<and>
   fst (create_currency_graph sample_world ''USD'' ''EUR'' 7 start) =
     Inr \<lparr>xs = [''2024-01-01'', ''2024-01-02'', ''2024-01-03''],
          ys = [JNum (Fin (9 / 10)), JNum (Fin (23 / 25)), JNum (Fin (91 / 100))],
          title = ''USD to EUR Exchange Rate'', ylabel = ''1 USD = X EUR'',
          annotation = Some (''Current: 0.9100'', ''2024-01-03'')\<rparr> \<and>
   sorted [''2024-01-01'', ''2024-01-02'', ''2024-01-03''] \<and>
   sorted (map date_number [''2024-01-01'', ''2024-01-02'', ''2024-01-03'']) \<and>
   (\<exists>x. JNum (Fin (91 / 100)) = JNum x \<and>
        Some (''Current: 0.9100'', ''2024-01-03'') = Some (''Current: '' @ fmt_f 4 x, ''2024-01-03''))"
proof -
  let ?series = "[(''2024-01-03'', [(''EUR'', JNum (Fin (91 / 100)))]),
                  (''2024-01-01'', [(''EUR'', JNum (Fin (9 / 10)))]),
                  (''2024-01-02'', [(''EUR'', JNum (Fin (23 / 25)))])]"
  let ?img = "\<lparr>xs = [''2024-01-01'', ''2024-01-02'', ''2024-01-03''],
          ys = [JNum (Fin (9 / 10)), JNum (Fin (23 / 25)), JNum (Fin (91 / 100))],
          title = ''USD to EUR Exchange Rate'', ylabel = ''1 USD = X EUR'',
          annotation = Some (''Current: 0.9100'', ''2024-01-03'')\<rparr>"
  have h1: "date_ago sample_world 0 = Inr ''2024-01-03''"
    and h2: "date_ago sample_world 7 = Inr ''2024-01-03''"
    by (simp_all add: sample_world_def)
  have h3: "get_historical_rates sample_world ''USD'' ''EUR'' ''2024-01-03'' ''2024-01-03'' start =
     (Inr ?series,
      emit (HttpGet (time_series_url sample_world ''USD'' ''EUR'' ''2024-01-03'' ''2024-01-03''))
        start)"
    by (simp add: get_historical_rates_def sample_world_def)
  have h4: "distinct (map fst ?series)" by simp
  have h5: "fst (create_currency_graph sample_world ''USD'' ''EUR'' 7 start) = Inr ?img"
    by code_simp
  then have h5': "create_currency_graph sample_world ''USD'' ''EUR'' 7 start =
                   (Inr ?img, snd (create_currency_graph sample_world ''USD'' ''EUR'' 7 start))"
    by (metis prod.collapse)
  have iso: "list_all iso_shape (map fst ?series)" by code_simp
  have ne: "?series \<noteq> []" by simp
  from chart_sorted_and_labelled [OF h1 h2 h3 h4 h5']
  have c: "sorted (xs ?img)"
    "list_all iso_shape (map fst ?series) \<longrightarrow> sorted (map date_number (xs ?img))"
    "?series \<noteq> [] \<longrightarrow>
       (\<exists>x. last (ys ?img) = JNum x \<and>
            annotation ?img = Some (''Current: '' @ fmt_f 4 x, last (xs ?img)) \<and>
            (\<forall>d\<in>set (xs ?img). d \<le> last (xs ?img)) \<and>
            (\<forall>q. x = Fin q \<longrightarrow> decimals (fmt_f 4 x) = Some 4))"
    by blast+
  from c(1) have c1: "sorted [''2024-01-01'', ''2024-01-02'', ''2024-01-03'']" by simp
  from c(2) iso have c2: "sorted (map date_number [''2024-01-01'', ''2024-01-02'', ''2024-01-03''])"
    by simp
  from c(3) ne obtain x where
    "last (ys ?img) = JNum x"
    "annotation ?img = Some (''Current: '' @ fmt_f 4 x, last (xs ?img))"
    by blast
  then have c3: "\<exists>x. JNum (Fin (91 / 100)) = JNum x \<and>
        Some (''Current: 0.9100'', ''2024-01-03'') = Some (''Current: '' @ fmt_f 4 x, ''2024-01-03'')"
    by simp
  from h1 h2 h3 h4 h5 c1 c2 c3 show ?thesis by blast
qed

subsection \<open>Resolving twice\<close>

lemma dispatch_convert:
  "startswith data ''convert_'' \<Longrightarrow> dispatch w user_id data r = convert_branch w user_id data r"
  by (simp add: dispatch_def)

lemma resolve_rate_state [simp]:
  "user_data (snd (resolve_rate w amt b t r)) = user_data r"
  "figs (snd (resolve_rate w amt b t r)) = figs r"
proof -
  let ?g = "get_exchange_rate w b t (emit (OfflineLookup b t) r)"
  have g: "user_data (snd ?g) = user_data r" "figs (snd ?g) = figs r" by simp_all
  have "user_data (snd (resolve_rate w amt b t r)) = user_data r \<and>
        figs (snd (resolve_rate w amt b t r)) = figs r"
  proof (cases "convert w b t")
    case (Inr x)
    then show ?thesis by (simp add: resolve_rate_def)
  next
    case (Inl e)
    obtain res r1 where gr: "?g = (res, r1)" by (cases ?g)
    with g have "user_data r1 = user_data r" "figs r1 = figs r" by simp_all
    then show ?thesis using Inl gr by (cases res) (simp_all add: resolve_rate_def)
  qed
  then show "user_data (snd (resolve_rate w amt b t r)) = user_data r"
    and "figs (snd (resolve_rate w amt b t r)) = figs r"
    by simp_all
qed

lemma bot_call_state [simp]:
  "user_data (snd (bot_call w ef r)) = user_data r"
  "figs (snd (bot_call w ef r)) = figs r"
  by (simp_all add: bot_call_def)

lemma convert_branch_state:
  "user_data (snd (convert_branch w user_id data r)) = user_data r"
  "figs (snd (convert_branch w user_id data r)) = figs r"
proof -
  have "user_data (snd (convert_branch w user_id data r)) = user_data r \<and>
        figs (snd (convert_branch w user_id data r)) = figs r"
  proof (cases "split_pair (remove_all ''convert_'' data)")
    case (Inl e)
    then show ?thesis by (simp add: convert_branch_def)
  next
    case (Inr bt)
    obtain b t where bt: "bt = (b, t)" by (cases bt)
    let ?amt = "stored_amount (user_data r) user_id"
    obtain res r1 where rr: "resolve_rate w ?amt b t r = (res, r1)"
      by (cases "resolve_rate w ?amt b t r")
    then have s: "user_data r1 = user_data r" "figs r1 = figs r"
      using resolve_rate_state [of w ?amt b t r] by simp_all
    show ?thesis
    proof (cases res)
      case (Inl e)
      then show ?thesis using Inr bt rr s by (simp add: convert_branch_def)
    next
      case (Inr xr)
      obtain x v where "xr = (x, v)" by (cases xr)
      then show ?thesis
        using \<open>split_pair (remove_all ''convert_'' data) = Inr bt\<close> bt rr s Inr
          bot_call_state [of w _ r1]
        by (simp add: convert_branch_def send_message_def)
    qed
  qed
  then show "user_data (snd (convert_branch w user_id data r)) = user_data r"
    and "figs (snd (convert_branch w user_id data r)) = figs r"
    by simp_all
qed

lemma handle_callback_query_state:
  assumes "user_data (snd (dispatch w user_id data r)) = user_data r"
    and "figs (snd (dispatch w user_id data r)) = figs r"
  shows "user_data (snd (handle_callback_query w user_id data r)) = user_data r"
    and "figs (snd (handle_callback_query w user_id data r)) = figs r"
  using assms
  by (cases "dispatch w user_id data r";
      simp add: handle_callback_query_def bot_call_def send_message_def split: option.splits)+

lemma run_reset:
  "user_data r' = user_data r \<Longrightarrow> figs r' = figs r \<Longrightarrow> r'\<lparr>trace := trace r\<rparr> = (r::run)"
  by (cases r, cases r') simp

lemma get_exchange_rate_agree:
  assumes "API_KEY w' = API_KEY w"
    and "fetch_one w' (fetch_one_url w b t) = fetch_one w (fetch_one_url w b t)"
  shows "get_exchange_rate w' b t r = get_exchange_rate w b t r"
proof -
  have u: "fetch_one_url w' b t = fetch_one_url w b t"
    using assms(1) by (simp add: fetch_one_url_def)
  show ?thesis by (simp add: get_exchange_rate_def Let_def u assms(2))
qed

lemma get_exchange_rate_result_state_free:
  "fst (get_exchange_rate w b t r') = fst (get_exchange_rate w b t r)"
  by (simp add: get_exchange_rate_def Let_def split: sum.splits option.splits)

lemma resolve_rate_result_state_free:
  "fst (resolve_rate w amt b t r') = fst (resolve_rate w amt b t r)"
proof (cases "convert w b t")
  case (Inr x)
  then show ?thesis by (simp add: resolve_rate_def)
next
  case (Inl e)
  obtain res r1 where g: "get_exchange_rate w b t (emit (OfflineLookup b t) r) = (res, r1)"
    by (cases "get_exchange_rate w b t (emit (OfflineLookup b t) r)")
  obtain res' r1' where g': "get_exchange_rate w b t (emit (OfflineLookup b t) r') = (res', r1')"
    by (cases "get_exchange_rate w b t (emit (OfflineLookup b t) r')")
  have "res' = res"
    using get_exchange_rate_result_state_free
      [of w b t "emit (OfflineLookup b t) r'" "emit (OfflineLookup b t) r"] g g'
    by simp
  then show ?thesis using Inl g g'
    by (cases res) (simp_all add: resolve_rate_def)
qed

lemma resolve_rate_agree:
  assumes "round64 w' = round64 w" and "convert w' b t = convert w b t"
    and "API_KEY w' = API_KEY w"
    and "fetch_one w' (fetch_one_url w b t) = fetch_one w (fetch_one_url w b t)"
  shows "resolve_rate w' amt b t r = resolve_rate w amt b t r"
  unfolding resolve_rate_def assms(1,2) get_exchange_rate_agree [OF assms(3,4)] ..

lemma bot_call_agree:
  assumes "telegram w' = telegram w"
  shows "bot_call w' = bot_call w"
  by (intro ext) (simp add: bot_call_def assms)

lemma send_message_agree:
  assumes "telegram w' = telegram w"
  shows "send_message w' = send_message w"
  by (intro ext) (simp add: send_message_def bot_call_agree [OF assms])

lemma convert_branch_agree:
  assumes "split_pair (remove_all ''convert_'' data) = Inr (b, t)"
    and "round64 w' = round64 w" and "convert w' b t = convert w b t"
    and "API_KEY w' = API_KEY w"
    and "fetch_one w' (fetch_one_url w b t) = fetch_one w (fetch_one_url w b t)"
    and "telegram w' = telegram w"
  shows "convert_branch w' user_id data r = convert_branch w user_id data r"
  unfolding convert_branch_def assms(1) sum.case prod.case
    resolve_rate_agree [OF assms(2,3,4,5)] send_message_agree [OF assms(6)] ..

text \<open>
  Claim C8. Resolving a pair is a function of the upstream data: two resolutions that
  see the same answer of the offline table and the same response of the remote service
  (with the same key and the same float rounding) give the same rate and value,
  whatever state they start in; and a conversion callback repeated in the state the
  first one left, with a transport that behaves the same, leaves \<open>user_data\<close> and the
  figures untouched and gives the same result and the same replies.
\<close>

theorem resolving_twice_agrees:
  assumes "startswith data ''convert_''"
    and "split_pair (remove_all ''convert_'' data) = Inr (b, t)"
    and "round64 w' = round64 w" and "convert w' b t = convert w b t"
    and "API_KEY w' = API_KEY w"
    and "fetch_one w' (fetch_one_url w b t) = fetch_one w (fetch_one_url w b t)"
    and "telegram w' = telegram w"
  shows "fst (get_exchange_rate w' b t r') = fst (get_exchange_rate w b t r)
       \<and> fst (resolve_rate w' amt b t r') = fst (resolve_rate w amt b t r)
       \<and> user_data (snd (handle_callback_query w user_id data r)) = user_data r
       \<and> figs (snd (handle_callback_query w user_id data r)) = figs r
       \<and> handle_callback_query w' user_id data
            ((snd (handle_callback_query w user_id data r))\<lparr>trace := trace r\<rparr>) =
          handle_callback_query w user_id data r"
proof -
  have "fst (get_exchange_rate w' b t r') = fst (get_exchange_rate w b t r')"
    by (simp only: get_exchange_rate_agree [OF assms(5,6)])
  also have "\<dots> = fst (get_exchange_rate w b t r)"
    by (rule get_exchange_rate_result_state_free)
  finally have c1: "fst (get_exchange_rate w' b t r') = fst (get_exchange_rate w b t r)" .
  have "fst (resolve_rate w' amt b t r') = fst (resolve_rate w amt b t r')"
    by (simp only: resolve_rate_agree [OF assms(3,4,5,6)])
  also have "\<dots> = fst (resolve_rate w amt b t r)"
    by (rule resolve_rate_result_state_free)
  finally have c2: "fst (resolve_rate w' amt b t r') = fst (resolve_rate w amt b t r)" .
  have d: "dispatch w user_id data r = convert_branch w user_id data r"
    using assms(1) by (rule dispatch_convert)
  have ds: "user_data (snd (dispatch w user_id data r)) = user_data r"
    "figs (snd (dispatch w user_id data r)) = figs r"
    unfolding d by (rule convert_branch_state)+
  have st: "user_data (snd (handle_callback_query w user_id data r)) = user_data r"
    "figs (snd (handle_callback_query w user_id data r)) = figs r"
    by (rule handle_callback_query_state [OF ds])+
  then have reset: "(snd (handle_callback_query w user_id data r))\<lparr>trace := trace r\<rparr> = r"
    by (rule run_reset)
  have "dispatch w' user_id data r = dispatch w user_id data r"
    using assms(1) convert_branch_agree [OF assms(2,3,4,5,6,7)]
    by (simp add: dispatch_convert)
  then have "handle_callback_query w' user_id data r = handle_callback_query w user_id data r"
    unfolding handle_callback_query_def bot_call_agree [OF assms(7)]
      send_message_agree [OF assms(7)] by (simp only:)
  with reset have c3: "handle_callback_query w' user_id data
            ((snd (handle_callback_query w user_id data r))\<lparr>trace := trace r\<rparr>) =
          handle_callback_query w user_id data r"
    by simp
  from c1 c2 st c3 show ?thesis by blast
qed

theorem resolving_twice_agrees_witness:
  "startswith ''convert_usd/eur'' ''convert_'' \<and>
   split_pair (remove_all ''convert_'' ''convert_usd/eur'') = Inr (''USD'', ''EUR'') \<and>
   round64 later_world = round64 sample_world \<and>
   convert later_world ''USD'' ''EUR'' = convert sample_world ''USD'' ''EUR'' \<and>
   API_KEY later_world = API_KEY sample_world \<and>
   fetch_one later_world (fetch_one_url sample_world ''USD'' ''EUR'') =
     fetch_one sample_world (fetch_one_url sample_world ''USD'' ''EUR'') \<and>
   telegram later_world = telegram sample_world \<and>
   fst (resolve_rate later_world (Some (Fin 100)) ''USD'' ''EUR'' start) =
     fst (resolve_rate sample_world (Some (Fin 100)) ''USD'' ''EUR'' hundred) \<and>
   fst (resolve_rate sample_world (Some (Fin 100)) ''USD'' ''EUR'' hundred) =
     Inr (Fin (9 / 10), Fin 90) \<and>
   handle_callback_query later_world 1 ''convert_usd/eur''
     ((snd (handle_callback_query sample_world 1 ''convert_usd/eur'' hundred))
        \<lparr>trace := trace hundred\<rparr>) =
   handle_callback_query sample_world 1 ''convert_usd/eur'' hundred"
proof -
  have h1: "startswith ''convert_usd/eur'' ''convert_''" by code_simp
  have h2: "split_pair (remove_all ''convert_'' ''convert_usd/eur'') = Inr (''USD'', ''EUR'')"
    by code_simp
  have h3: "round64 later_world = round64 sample_world"
    and h4: "convert later_world ''USD'' ''EUR'' = convert sample_world ''USD'' ''EUR''"
    and h5: "API_KEY later_world = API_KEY sample_world"
    and h6: "fetch_one later_world (fetch_one_url sample_world ''USD'' ''EUR'') =
             fetch_one sample_world (fetch_one_url sample_world ''USD'' ''EUR'')"
    and h7: "telegram later_world = telegram sample_world"
    by (simp_all add: later_world_def)
  have v: "fst (resolve_rate sample_world (Some (Fin 100)) ''USD'' ''EUR'' hundred) =
             Inr (Fin (9 / 10), Fin 90)"
    by code_simp
  from resolving_twice_agrees [OF h1 h2 h3 h4 h5 h6 h7,
      where r' = start and amt = "Some (Fin 100)" and r = hundred and user_id = 1]
  show ?thesis using h1 h2 h3 h4 h5 h6 h7 v by blast
qed

subsection \<open>Start-up\<close>





subsection \<open>The chart of the timeframe callback\<close>

lemma create_currency_graph_request:
  assumes "date_ago w 0 = Inr e" and "date_ago w n = Inr s"
  shows "\<exists>rest. trace (snd (create_currency_graph w b t n r)) =
           trace r @ HttpGet (time_series_url w b t s e) # rest"
proof -
  obtain res r1 where d: "draw_graph w b t s e r = (res, r1)"
    by (cases "draw_graph w b t s e r")
  from get_historical_rates_trace [of w b t s e r] d
  obtain rest where r1: "trace r1 = trace r @ HttpGet (time_series_url w b t s e) # rest"
    using draw_graph_trace_eq [of w b t s e r] by auto
  show ?thesis using assms d r1
    by (cases res) (simp_all add: create_currency_graph_def)
qed

lemma timeframe_branch_delivered:
  assumes "split_on CHR ''_'' data = [u, q, d]"
    and "py_int d = Some n"
    and "split_pair (chosen_pair (user_data r) user_id q) = Inr (b, t)"
    and "telegram w (length (trace r)) = None"
  shows "timeframe_branch w user_id data r =
           (case send_graph w b t n
                   (emit (SendMessage (''Generating '' @ show_int n @ ''-day graph for '' @ b @
                                       ''/'' @ t @ ''...'' @ nl @ ''This may take a moment.'') [])
                      r) of
              (None, r2) \<Rightarrow> (None, r2)
            | (Some ex, r2) \<Rightarrow>
                bot_call w (EditMessage (''Error generating graph: '' @ str_exn ex)) r2)"
  using assms by (simp add: timeframe_branch_def send_message_def bot_call_def)

lemma send_graph_drawn:
  assumes "create_currency_graph w b t n r = (Inr img, r2)"
  shows "send_graph w b t n r =
           (case bot_call w
                   (SendPhoto img
                      (b @ ''/'' @ t @ '' exchange rate over the past '' @ show_int n @
                       '' days.'' @ nl @ ''Use /graph to view a different graph.''))
                   r2 of
              (Some ex, r3) \<Rightarrow> (Some ex, r3)
            | (None, r3) \<Rightarrow> bot_call w DeleteMessage r3)"
  using assms by (simp add: send_graph_def)

lemma send_graph_failed:
  assumes "create_currency_graph w b t n r = (Inl ex, r2)"
  shows "send_graph w b t n r = (Some ex, r2)"
  using assms by (simp add: send_graph_def)

lemma timeframe_branch_photo:
  assumes "split_on CHR ''_'' data = [u, q, d]"
    and "py_int d = Some n"
    and "split_pair (chosen_pair (user_data r) user_id q) = Inr (b, t)"
    and "telegram w (length (trace r)) = None"
    and "create_currency_graph w b t n
           (emit (SendMessage (''Generating '' @ show_int n @ ''-day graph for '' @ b @
                               ''/'' @ t @ ''...'' @ nl @ ''This may take a moment.'') []) r) =
         (Inr img, r2)"
  shows "\<exists>rest. trace (snd (timeframe_branch w user_id data r)) =
           trace r2 @
           SendPhoto img
             (b @ ''/'' @ t @ '' exchange rate over the past '' @ show_int n @
              '' days.'' @ nl @ ''Use /graph to view a different graph.'') # rest"
  unfolding timeframe_branch_delivered [OF assms(1,2,3,4)] send_graph_drawn [OF assms(5)]
  by (simp add: bot_call_def split: option.splits)

lemma timeframe_branch_edit:
  assumes "split_on CHR ''_'' data = [u, q, d]"
    and "py_int d = Some n"
    and "split_pair (chosen_pair (user_data r) user_id q) = Inr (b, t)"
    and "telegram w (length (trace r)) = None"
    and "create_currency_graph w b t n
           (emit (SendMessage (''Generating '' @ show_int n @ ''-day graph for '' @ b @
                               ''/'' @ t @ ''...'' @ nl @ ''This may take a moment.'') []) r) =
         (Inl ex, r2)"
  shows "\<exists>rest. trace (snd (timeframe_branch w user_id data r)) =
           trace r2 @ EditMessage (''Error generating graph: '' @ str_exn ex) # rest"
  unfolding timeframe_branch_delivered [OF assms(1,2,3,4)] send_graph_failed [OF assms(5)]
  by (simp add: bot_call_def)

lemma timeframe_branch_request:
  assumes "split_on CHR ''_'' data = [u, q, d]"
    and "py_int d = Some n"
    and "split_pair (chosen_pair (user_data r) user_id q) = Inr (b, t)"
    and "telegram w (length (trace r)) = None"
    and "date_ago w 0 = Inr e" and "date_ago w n = Inr s"
  shows "\<exists>rest. trace (snd (timeframe_branch w user_id data r)) =
           trace r @
           SendMessage (''Generating '' @ show_int n @ ''-day graph for '' @ b @
                        ''/'' @ t @ ''...'' @ nl @ ''This may take a moment.'') [] #
           HttpGet (time_series_url w b t s e) # rest"
proof -
  let ?m = "SendMessage (''Generating '' @ show_int n @ ''-day graph for '' @ b @
                        ''/'' @ t @ ''...'' @ nl @ ''This may take a moment.'') []"
  obtain res r2 where c: "create_currency_graph w b t n (emit ?m r) = (res, r2)"
    by (cases "create_currency_graph w b t n (emit ?m r)")
  from create_currency_graph_request [OF assms(5,6), of b t "emit ?m r"] c
  obtain rest where r2: "trace r2 = trace r @ ?m # HttpGet (time_series_url w b t s e) # rest"
    by auto
  show ?thesis
  proof (cases res)
    case (Inl ex)
    with c timeframe_branch_edit [OF assms(1,2,3,4), of ex r2] r2 show ?thesis by auto
  next
    case (Inr img)
    with c timeframe_branch_photo [OF assms(1,2,3,4), of img r2] r2 show ?thesis by auto
  qed
qed

lemma timeframe_flow:
  assumes "startswith data ''timeframe_''"
    and "split_on CHR ''_'' data = [u, q, d]"
    and "py_int d = Some n"
    and "split_pair (chosen_pair (user_data r) user_id q) = Inr (b, t)"
    and "telegram w (length (trace r)) = None"
  shows "date_ago w 0 = Inr e \<and> date_ago w n = Inr s \<longrightarrow>
           (\<exists>rest. trace (snd (handle_callback_query w user_id data r)) =
              trace r @
              SendMessage (''Generating '' @ show_int n @ ''-day graph for '' @ b @
                           ''/'' @ t @ ''...'' @ nl @ ''This may take a moment.'') [] #
              HttpGet (time_series_url w b t s e) # rest)"
    and "create_currency_graph w b t n
           (emit (SendMessage (''Generating '' @ show_int n @ ''-day graph for '' @ b @
                               ''/'' @ t @ ''...'' @ nl @ ''This may take a moment.'') []) r) =
         (Inr img, r2) \<longrightarrow>
           (\<exists>rest. trace (snd (handle_callback_query w user_id data r)) =
              trace r2 @
              SendPhoto img
                (b @ ''/'' @ t @ '' exchange rate over the past '' @ show_int n @
                 '' days.'' @ nl @ ''Use /graph to view a different graph.'') # rest)"
    and "create_currency_graph w b t n
           (emit (SendMessage (''Generating '' @ show_int n @ ''-day graph for '' @ b @
                               ''/'' @ t @ ''...'' @ nl @ ''This may take a moment.'') []) r) =
         (Inl ex, r2) \<longrightarrow>
           (\<exists>rest. trace (snd (handle_callback_query w user_id data r)) =
              trace r2 @ EditMessage (''Error generating graph: '' @ str_exn ex) # rest)"
    and "create_currency_graph w b t n
           (emit (SendMessage (''Generating '' @ show_int n @ ''-day graph for '' @ b @
                               ''/'' @ t @ ''...'' @ nl @ ''This may take a moment.'') []) r) =
         (Inr img, r2) \<and>
         telegram w (length (trace r2)) = None \<and> telegram w (Suc (length (trace r2))) = None \<and>
         telegram w (Suc (Suc (length (trace r2)))) = None \<longrightarrow>
           handle_callback_query w user_id data r =
             (None, r2\<lparr>trace := trace r2 @
                        [SendPhoto img
                           (b @ ''/'' @ t @ '' exchange rate over the past '' @ show_int n @
                            '' days.'' @ nl @ ''Use /graph to view a different graph.''),
                         DeleteMessage, AnswerCallback]\<rparr>)"
proof -
  have disp: "dispatch w user_id data r = timeframe_branch w user_id data r"
    using assms(1) by (rule dispatch_timeframe)
  obtain more where more: "trace (snd (handle_callback_query w user_id data r)) =
      trace (snd (timeframe_branch w user_id data r)) @ more"
    using handle_callback_query_trace [of w user_id data r] disp by auto
  show "date_ago w 0 = Inr e \<and> date_ago w n = Inr s \<longrightarrow>
           (\<exists>rest. trace (snd (handle_callback_query w user_id data r)) =
              trace r @
              SendMessage (''Generating '' @ show_int n @ ''-day graph for '' @ b @
                           ''/'' @ t @ ''...'' @ nl @ ''This may take a moment.'') [] #
              HttpGet (time_series_url w b t s e) # rest)"
    using timeframe_branch_request [OF assms(2,3,4,5), of e s] more by auto
  show "create_currency_graph w b t n
           (emit (SendMessage (''Generating '' @ show_int n @ ''-day graph for '' @ b @
                               ''/'' @ t @ ''...'' @ nl @ ''This may take a moment.'') []) r) =
         (Inr img, r2) \<longrightarrow>
           (\<exists>rest. trace (snd (handle_callback_query w user_id data r)) =
              trace r2 @
              SendPhoto img
                (b @ ''/'' @ t @ '' exchange rate over the past '' @ show_int n @
                 '' days.'' @ nl @ ''Use /graph to view a different graph.'') # rest)"
    using timeframe_branch_photo [OF assms(2,3,4,5), of img r2] more by auto
  show "create_currency_graph w b t n
           (emit (SendMessage (''Generating '' @ show_int n @ ''-day graph for '' @ b @
                               ''/'' @ t @ ''...'' @ nl @ ''This may take a moment.'') []) r) =
         (Inl ex, r2) \<longrightarrow>
           (\<exists>rest. trace (snd (handle_callback_query w user_id data r)) =
              trace r2 @ EditMessage (''Error generating graph: '' @ str_exn ex) # rest)"
    using timeframe_branch_edit [OF assms(2,3,4,5), of ex r2] more by auto
  show "create_currency_graph w b t n
           (emit (SendMessage (''Generating '' @ show_int n @ ''-day graph for '' @ b @
                               ''/'' @ t @ ''...'' @ nl @ ''This may take a moment.'') []) r) =
         (Inr img, r2) \<and>
         telegram w (length (trace r2)) = None \<and> telegram w (Suc (length (trace r2))) = None \<and>
         telegram w (Suc (Suc (length (trace r2)))) = None \<longrightarrow>
           handle_callback_query w user_id data r =
             (None, r2\<lparr>trace := trace r2 @
                        [SendPhoto img
                           (b @ ''/'' @ t @ '' exchange rate over the past '' @ show_int n @
                            '' days.'' @ nl @ ''Use /graph to view a different graph.''),
                         DeleteMessage, AnswerCallback]\<rparr>)"
  proof
    assume a: "create_currency_graph w b t n
           (emit (SendMessage (''Generating '' @ show_int n @ ''-day graph for '' @ b @
                               ''/'' @ t @ ''...'' @ nl @ ''This may take a moment.'') []) r) =
         (Inr img, r2) \<and>
         telegram w (length (trace r2)) = None \<and> telegram w (Suc (length (trace r2))) = None \<and>
         telegram w (Suc (Suc (length (trace r2)))) = None"
    then have c: "create_currency_graph w b t n
           (emit (SendMessage (''Generating '' @ show_int n @ ''-day graph for '' @ b @
                               ''/'' @ t @ ''...'' @ nl @ ''This may take a moment.'') []) r) =
         (Inr img, r2)" by simp
    show "handle_callback_query w user_id data r =
             (None, r2\<lparr>trace := trace r2 @
                        [SendPhoto img
                           (b @ ''/'' @ t @ '' exchange rate over the past '' @ show_int n @
                            '' days.'' @ nl @ ''Use /graph to view a different graph.''),
                         DeleteMessage, AnswerCallback]\<rparr>)"
      unfolding handle_callback_query_def disp timeframe_branch_delivered [OF assms(2,3,4,5)]
        send_graph_drawn [OF c]
      using a by (simp add: bot_call_def emit_def)
  qed
qed


text \<open>
  Claim C10. On a callback \<open>timeframe_<pair>_<days>\<close>, a pair stored in the user's
  session is the one charted, and the pair of the callback is charted only when the user
  has no session or no stored pair. With a stored pair the handler does the same
  whatever pair the callback names. For the pair so chosen, split into base and target,
  the handler announces the graph of that pair; and when the notice is delivered, the
  series it requests is the one of that base and target, the photo it sends is the
  chart that \<open>create_currency_graph\<close> builds for them, with a caption naming them, and
  a failure of that chart is what it writes into the notice.
\<close>

theorem timeframe_uses_stored_pair:
  "startswith data ''timeframe_'' \<and> split_on CHR ''_'' data = [u, q, d] \<and> py_int d = Some n
   \<longrightarrow>
     (user_data r user_id = Some s \<and> graph_pair s = Some p \<longrightarrow>
        (startswith data' ''timeframe_'' \<and> split_on CHR ''_'' data' = [u', q', d] \<longrightarrow>
           handle_callback_query w user_id data' r = handle_callback_query w user_id data r))
     \<and> (((user_data r user_id = Some s \<and> graph_pair s = Some c)
           \<or> ((user_data r user_id = None \<or>
                (\<exists>s0. user_data r user_id = Some s0 \<and> graph_pair s0 = None)) \<and> c = q))
          \<and> split_pair c = Inr (b, t) \<longrightarrow>
          (\<exists>rest. trace (snd (handle_callback_query w user_id data r)) =
             trace r @ SendMessage (''Generating '' @ show_int n @ ''-day graph for '' @ b @ ''/'' @ t @
                          ''...'' @ nl @ ''This may take a moment.'') [] # rest)
          \<and> (telegram w (length (trace r)) = None \<longrightarrow>
              (date_ago w 0 = Inr e \<and> date_ago w n = Inr s' \<longrightarrow>
                 (\<exists>rest. trace (snd (handle_callback_query w user_id data r)) =
                    trace r @ SendMessage (''Generating '' @ show_int n @ ''-day graph for '' @ b @ ''/'' @ t @
                          ''...'' @ nl @ ''This may take a moment.'') [] #
                    HttpGet (time_series_url w b t s' e) # rest))
              \<and> (create_currency_graph w b t n (emit (SendMessage (''Generating '' @ show_int n @ ''-day graph for '' @ b @ ''/'' @ t @
                          ''...'' @ nl @ ''This may take a moment.'') []) r) = (Inr img, r2) \<longrightarrow>
                 (\<exists>rest. trace (snd (handle_callback_query w user_id data r)) =
                    trace r2 @ SendPhoto img (b @ ''/'' @ t @ '' exchange rate over the past '' @ show_int n @
                     '' days.'' @ nl @ ''Use /graph to view a different graph.'') # rest))
              \<and> (create_currency_graph w b t n (emit (SendMessage (''Generating '' @ show_int n @ ''-day graph for '' @ b @ ''/'' @ t @
                          ''...'' @ nl @ ''This may take a moment.'') []) r) = (Inl ex, r2) \<longrightarrow>
                 (\<exists>rest. trace (snd (handle_callback_query w user_id data r)) =
                    trace r2 @ EditMessage (''Error generating graph: '' @ str_exn ex) # rest))
              \<and> (create_currency_graph w b t n (emit (SendMessage (''Generating '' @ show_int n @ ''-day graph for '' @ b @ ''/'' @ t @
                          ''...'' @ nl @ ''This may take a moment.'') []) r) = (Inr img, r2) \<and>
                 telegram w (length (trace r2)) = None \<and>
                 telegram w (Suc (length (trace r2))) = None \<and>
                 telegram w (Suc (Suc (length (trace r2)))) = None \<longrightarrow>
                   handle_callback_query w user_id data r =
                     (None, r2\<lparr>trace := trace r2 @
                                [SendPhoto img (b @ ''/'' @ t @ '' exchange rate over the past '' @ show_int n @
                     '' days.'' @ nl @ ''Use /graph to view a different graph.''), DeleteMessage, AnswerCallback]\<rparr>))))"
proof (rule impI)
  assume a: "startswith data ''timeframe_'' \<and> split_on CHR ''_'' data = [u, q, d] \<and>
             py_int d = Some n"
  then have a1: "startswith data ''timeframe_''" and a2: "split_on CHR ''_'' data = [u, q, d]"
    and a3: "py_int d = Some n" by simp_all
  have disp: "dispatch w user_id data r = timeframe_branch w user_id data r"
    using a1 by (rule dispatch_timeframe)
  obtain more where more: "trace (snd (handle_callback_query w user_id data r)) =
      trace (snd (timeframe_branch w user_id data r)) @ more"
    using handle_callback_query_trace [of w user_id data r] disp by auto
  have indep: "user_data r user_id = Some s \<and> graph_pair s = Some p \<longrightarrow>
        (startswith data' ''timeframe_'' \<and> split_on CHR ''_'' data' = [u', q', d] \<longrightarrow>
           handle_callback_query w user_id data' r = handle_callback_query w user_id data r)"
  proof (intro impI)
    assume st: "user_data r user_id = Some s \<and> graph_pair s = Some p"
      and b: "startswith data' ''timeframe_'' \<and> split_on CHR ''_'' data' = [u', q', d]"
    from st have ch: "\<And>x. chosen_pair (user_data r) user_id x = p"
      by (simp add: chosen_pair_stored)
    from b have "dispatch w user_id data' r = timeframe_branch w user_id data' r"
      by (simp add: dispatch_timeframe)
    moreover have "timeframe_branch w user_id data' r = timeframe_branch w user_id data r"
      using a2 b timeframe_branch_pair_only [of data' u' q' d data u q r user_id w] ch
      by simp
    ultimately show "handle_callback_query w user_id data' r =
                     handle_callback_query w user_id data r"
      using disp by (simp add: handle_callback_query_def)
  qed
  have chart: "((user_data r user_id = Some s \<and> graph_pair s = Some c)
           \<or> ((user_data r user_id = None \<or>
                (\<exists>s0. user_data r user_id = Some s0 \<and> graph_pair s0 = None)) \<and> c = q))
          \<and> split_pair c = Inr (b, t) \<longrightarrow>
          (\<exists>rest. trace (snd (handle_callback_query w user_id data r)) =
             trace r @ SendMessage (''Generating '' @ show_int n @ ''-day graph for '' @ b @ ''/'' @ t @
                          ''...'' @ nl @ ''This may take a moment.'') [] # rest)
          \<and> (telegram w (length (trace r)) = None \<longrightarrow>
              (date_ago w 0 = Inr e \<and> date_ago w n = Inr s' \<longrightarrow>
                 (\<exists>rest. trace (snd (handle_callback_query w user_id data r)) =
                    trace r @ SendMessage (''Generating '' @ show_int n @ ''-day graph for '' @ b @ ''/'' @ t @
                          ''...'' @ nl @ ''This may take a moment.'') [] #
                    HttpGet (time_series_url w b t s' e) # rest))
              \<and> (create_currency_graph w b t n (emit (SendMessage (''Generating '' @ show_int n @ ''-day graph for '' @ b @ ''/'' @ t @
                          ''...'' @ nl @ ''This may take a moment.'') []) r) = (Inr img, r2) \<longrightarrow>
                 (\<exists>rest. trace (snd (handle_callback_query w user_id data r)) =
                    trace r2 @ SendPhoto img (b @ ''/'' @ t @ '' exchange rate over the past '' @ show_int n @
                     '' days.'' @ nl @ ''Use /graph to view a different graph.'') # rest))
              \<and> (create_currency_graph w b t n (emit (SendMessage (''Generating '' @ show_int n @ ''-day graph for '' @ b @ ''/'' @ t @
                          ''...'' @ nl @ ''This may take a moment.'') []) r) = (Inl ex, r2) \<longrightarrow>
                 (\<exists>rest. trace (snd (handle_callback_query w user_id data r)) =
                    trace r2 @ EditMessage (''Error generating graph: '' @ str_exn ex) # rest))
              \<and> (create_currency_graph w b t n (emit (SendMessage (''Generating '' @ show_int n @ ''-day graph for '' @ b @ ''/'' @ t @
                          ''...'' @ nl @ ''This may take a moment.'') []) r) = (Inr img, r2) \<and>
                 telegram w (length (trace r2)) = None \<and>
                 telegram w (Suc (length (trace r2))) = None \<and>
                 telegram w (Suc (Suc (length (trace r2)))) = None \<longrightarrow>
                   handle_callback_query w user_id data r =
                     (None, r2\<lparr>trace := trace r2 @
                                [SendPhoto img (b @ ''/'' @ t @ '' exchange rate over the past '' @ show_int n @
                     '' days.'' @ nl @ ''Use /graph to view a different graph.''), DeleteMessage, AnswerCallback]\<rparr>)))"
  proof (rule impI)
    assume c: "((user_data r user_id = Some s \<and> graph_pair s = Some c)
           \<or> ((user_data r user_id = None \<or>
                (\<exists>s0. user_data r user_id = Some s0 \<and> graph_pair s0 = None)) \<and> c = q))
          \<and> split_pair c = Inr (b, t)"
    then have "chosen_pair (user_data r) user_id q = c"
      using chosen_pair_stored [of r user_id s c q] chosen_pair_callback [of r user_id q]
      by blast
    with c have sp: "split_pair (chosen_pair (user_data r) user_id q) = Inr (b, t)"
      by simp
    from timeframe_branch_start [OF a2 a3 sp, of w] more
    have n1: "\<exists>rest. trace (snd (handle_callback_query w user_id data r)) =
             trace r @ SendMessage (''Generating '' @ show_int n @ ''-day graph for '' @ b @ ''/'' @ t @
                          ''...'' @ nl @ ''This may take a moment.'') [] # rest"
      by auto
    have n2: "telegram w (length (trace r)) = None \<longrightarrow>
              (date_ago w 0 = Inr e \<and> date_ago w n = Inr s' \<longrightarrow>
                 (\<exists>rest. trace (snd (handle_callback_query w user_id data r)) =
                    trace r @ SendMessage (''Generating '' @ show_int n @ ''-day graph for '' @ b @ ''/'' @ t @
                          ''...'' @ nl @ ''This may take a moment.'') [] #
                    HttpGet (time_series_url w b t s' e) # rest))
              \<and> (create_currency_graph w b t n (emit (SendMessage (''Generating '' @ show_int n @ ''-day graph for '' @ b @ ''/'' @ t @
                          ''...'' @ nl @ ''This may take a moment.'') []) r) = (Inr img, r2) \<longrightarrow>
                 (\<exists>rest. trace (snd (handle_callback_query w user_id data r)) =
                    trace r2 @ SendPhoto img (b @ ''/'' @ t @ '' exchange rate over the past '' @ show_int n @
                     '' days.'' @ nl @ ''Use /graph to view a different graph.'') # rest))
              \<and> (create_currency_graph w b t n (emit (SendMessage (''Generating '' @ show_int n @ ''-day graph for '' @ b @ ''/'' @ t @
                          ''...'' @ nl @ ''This may take a moment.'') []) r) = (Inl ex, r2) \<longrightarrow>
                 (\<exists>rest. trace (snd (handle_callback_query w user_id data r)) =
                    trace r2 @ EditMessage (''Error generating graph: '' @ str_exn ex) # rest))
              \<and> (create_currency_graph w b t n (emit (SendMessage (''Generating '' @ show_int n @ ''-day graph for '' @ b @ ''/'' @ t @
                          ''...'' @ nl @ ''This may take a moment.'') []) r) = (Inr img, r2) \<and>
                 telegram w (length (trace r2)) = None \<and>
                 telegram w (Suc (length (trace r2))) = None \<and>
                 telegram w (Suc (Suc (length (trace r2)))) = None \<longrightarrow>
                   handle_callback_query w user_id data r =
                     (None, r2\<lparr>trace := trace r2 @
                                [SendPhoto img (b @ ''/'' @ t @ '' exchange rate over the past '' @ show_int n @
                     '' days.'' @ nl @ ''Use /graph to view a different graph.''), DeleteMessage, AnswerCallback]\<rparr>))"
    proof (rule impI)
      assume tg: "telegram w (length (trace r)) = None"
      note flow = timeframe_flow [OF a1 a2 a3 sp tg]
      have f1: "date_ago w 0 = Inr e \<and> date_ago w n = Inr s' \<longrightarrow>
                 (\<exists>rest. trace (snd (handle_callback_query w user_id data r)) =
                    trace r @ SendMessage (''Generating '' @ show_int n @ ''-day graph for '' @ b @ ''/'' @ t @
                          ''...'' @ nl @ ''This may take a moment.'') [] #
                    HttpGet (time_series_url w b t s' e) # rest)"
        by (rule flow(1))
      have f2: "create_currency_graph w b t n (emit (SendMessage (''Generating '' @ show_int n @ ''-day graph for '' @ b @ ''/'' @ t @
                          ''...'' @ nl @ ''This may take a moment.'') []) r) = (Inr img, r2) \<longrightarrow>
                 (\<exists>rest. trace (snd (handle_callback_query w user_id data r)) =
                    trace r2 @ SendPhoto img (b @ ''/'' @ t @ '' exchange rate over the past '' @ show_int n @
                     '' days.'' @ nl @ ''Use /graph to view a different graph.'') # rest)"
        by (rule flow(2))
      have f3: "create_currency_graph w b t n (emit (SendMessage (''Generating '' @ show_int n @ ''-day graph for '' @ b @ ''/'' @ t @
                          ''...'' @ nl @ ''This may take a moment.'') []) r) = (Inl ex, r2) \<longrightarrow>
                 (\<exists>rest. trace (snd (handle_callback_query w user_id data r)) =
                    trace r2 @ EditMessage (''Error generating graph: '' @ str_exn ex) # rest)"
        by (rule flow(3))
      have f4: "create_currency_graph w b t n (emit (SendMessage (''Generating '' @ show_int n @ ''-day graph for '' @ b @ ''/'' @ t @
                          ''...'' @ nl @ ''This may take a moment.'') []) r) = (Inr img, r2) \<and>
                 telegram w (length (trace r2)) = None \<and>
                 telegram w (Suc (length (trace r2))) = None \<and>
                 telegram w (Suc (Suc (length (trace r2)))) = None \<longrightarrow>
                   handle_callback_query w user_id data r =
                     (None, r2\<lparr>trace := trace r2 @
                                [SendPhoto img (b @ ''/'' @ t @ '' exchange rate over the past '' @ show_int n @
                     '' days.'' @ nl @ ''Use /graph to view a different graph.''), DeleteMessage, AnswerCallback]\<rparr>)"
        by (rule flow(4))
      from f1 f2 f3 f4 show "(date_ago w 0 = Inr e \<and> date_ago w n = Inr s' \<longrightarrow>
                 (\<exists>rest. trace (snd (handle_callback_query w user_id data r)) =
                    trace r @ SendMessage (''Generating '' @ show_int n @ ''-day graph for '' @ b @ ''/'' @ t @
                          ''...'' @ nl @ ''This may take a moment.'') [] #
                    HttpGet (time_series_url w b t s' e) # rest))
              \<and> (create_currency_graph w b t n (emit (SendMessage (''Generating '' @ show_int n @ ''-day graph for '' @ b @ ''/'' @ t @
                          ''...'' @ nl @ ''This may take a moment.'') []) r) = (Inr img, r2) \<longrightarrow>
                 (\<exists>rest. trace (snd (handle_callback_query w user_id data r)) =
                    trace r2 @ SendPhoto img (b @ ''/'' @ t @ '' exchange rate over the past '' @ show_int n @
                     '' days.'' @ nl @ ''Use /graph to view a different graph.'') # rest))
              \<and> (create_currency_graph w b t n (emit (SendMessage (''Generating '' @ show_int n @ ''-day graph for '' @ b @ ''/'' @ t @
                          ''...'' @ nl @ ''This may take a moment.'') []) r) = (Inl ex, r2) \<longrightarrow>
                 (\<exists>rest. trace (snd (handle_callback_query w user_id data r)) =
                    trace r2 @ EditMessage (''Error generating graph: '' @ str_exn ex) # rest))
              \<and> (create_currency_graph w b t n (emit (SendMessage (''Generating '' @ show_int n @ ''-day graph for '' @ b @ ''/'' @ t @
                          ''...'' @ nl @ ''This may take a moment.'') []) r) = (Inr img, r2) \<and>
                 telegram w (length (trace r2)) = None \<and>
                 telegram w (Suc (length (trace r2))) = None \<and>
                 telegram w (Suc (Suc (length (trace r2)))) = None \<longrightarrow>
                   handle_callback_query w user_id data r =
                     (None, r2\<lparr>trace := trace r2 @
                                [SendPhoto img (b @ ''/'' @ t @ '' exchange rate over the past '' @ show_int n @
                     '' days.'' @ nl @ ''Use /graph to view a different graph.''), DeleteMessage, AnswerCallback]\<rparr>))"
        by (intro conjI)
    qed
    from n1 n2 show "(\<exists>rest. trace (snd (handle_callback_query w user_id data r)) =
             trace r @ SendMessage (''Generating '' @ show_int n @ ''-day graph for '' @ b @ ''/'' @ t @
                          ''...'' @ nl @ ''This may take a moment.'') [] # rest)
          \<and> (telegram w (length (trace r)) = None \<longrightarrow>
              (date_ago w 0 = Inr e \<and> date_ago w n = Inr s' \<longrightarrow>
                 (\<exists>rest. trace (snd (handle_callback_query w user_id data r)) =
                    trace r @ SendMessage (''Generating '' @ show_int n @ ''-day graph for '' @ b @ ''/'' @ t @
                          ''...'' @ nl @ ''This may take a moment.'') [] #
                    HttpGet (time_series_url w b t s' e) # rest))
              \<and> (create_currency_graph w b t n (emit (SendMessage (''Generating '' @ show_int n @ ''-day graph for '' @ b @ ''/'' @ t @
                          ''...'' @ nl @ ''This may take a moment.'') []) r) = (Inr img, r2) \<longrightarrow>
                 (\<exists>rest. trace (snd (handle_callback_query w user_id data r)) =
                    trace r2 @ SendPhoto img (b @ ''/'' @ t @ '' exchange rate over the past '' @ show_int n @
                     '' days.'' @ nl @ ''Use /graph to view a different graph.'') # rest))
              \<and> (create_currency_graph w b t n (emit (SendMessage (''Generating '' @ show_int n @ ''-day graph for '' @ b @ ''/'' @ t @
                          ''...'' @ nl @ ''This may take a moment.'') []) r) = (Inl ex, r2) \<longrightarrow>
                 (\<exists>rest. trace (snd (handle_callback_query w user_id data r)) =
                    trace r2 @ EditMessage (''Error generating graph: '' @ str_exn ex) # rest))
              \<and> (create_currency_graph w b t n (emit (SendMessage (''Generating '' @ show_int n @ ''-day graph for '' @ b @ ''/'' @ t @
                          ''...'' @ nl @ ''This may take a moment.'') []) r) = (Inr img, r2) \<and>
                 telegram w (length (trace r2)) = None \<and>
                 telegram w (Suc (length (trace r2))) = None \<and>
                 telegram w (Suc (Suc (length (trace r2)))) = None \<longrightarrow>
                   handle_callback_query w user_id data r =
                     (None, r2\<lparr>trace := trace r2 @
                                [SendPhoto img (b @ ''/'' @ t @ '' exchange rate over the past '' @ show_int n @
                     '' days.'' @ nl @ ''Use /graph to view a different graph.''), DeleteMessage, AnswerCallback]\<rparr>)))"
      by (rule conjI)
  qed
  from indep chart show "(user_data r user_id = Some s \<and> graph_pair s = Some p \<longrightarrow>
        (startswith data' ''timeframe_'' \<and> split_on CHR ''_'' data' = [u', q', d] \<longrightarrow>
           handle_callback_query w user_id data' r = handle_callback_query w user_id data r))
     \<and> (((user_data r user_id = Some s \<and> graph_pair s = Some c)
           \<or> ((user_data r user_id = None \<or>
                (\<exists>s0. user_data r user_id = Some s0 \<and> graph_pair s0 = None)) \<and> c = q))
          \<and> split_pair c = Inr (b, t) \<longrightarrow>
          (\<exists>rest. trace (snd (handle_callback_query w user_id data r)) =
             trace r @ SendMessage (''Generating '' @ show_int n @ ''-day graph for '' @ b @ ''/'' @ t @
                          ''...'' @ nl @ ''This may take a moment.'') [] # rest)
          \<and> (telegram w (length (trace r)) = None \<longrightarrow>
              (date_ago w 0 = Inr e \<and> date_ago w n = Inr s' \<longrightarrow>
                 (\<exists>rest. trace (snd (handle_callback_query w user_id data r)) =
                    trace r @ SendMessage (''Generating '' @ show_int n @ ''-day graph for '' @ b @ ''/'' @ t @
                          ''...'' @ nl @ ''This may take a moment.'') [] #
                    HttpGet (time_series_url w b t s' e) # rest))
              \<and> (create_currency_graph w b t n (emit (SendMessage (''Generating '' @ show_int n @ ''-day graph for '' @ b @ ''/'' @ t @
                          ''...'' @ nl @ ''This may take a moment.'') []) r) = (Inr img, r2) \<longrightarrow>
                 (\<exists>rest. trace (snd (handle_callback_query w user_id data r)) =
                    trace r2 @ SendPhoto img (b @ ''/'' @ t @ '' exchange rate over the past '' @ show_int n @
                     '' days.'' @ nl @ ''Use /graph to view a different graph.'') # rest))
              \<and> (create_currency_graph w b t n (emit (SendMessage (''Generating '' @ show_int n @ ''-day graph for '' @ b @ ''/'' @ t @
                          ''...'' @ nl @ ''This may take a moment.'') []) r) = (Inl ex, r2) \<longrightarrow>
                 (\<exists>rest. trace (snd (handle_callback_query w user_id data r)) =
                    trace r2 @ EditMessage (''Error generating graph: '' @ str_exn ex) # rest))
              \<and> (create_currency_graph w b t n (emit (SendMessage (''Generating '' @ show_int n @ ''-day graph for '' @ b @ ''/'' @ t @
                          ''...'' @ nl @ ''This may take a moment.'') []) r) = (Inr img, r2) \<and>
                 telegram w (length (trace r2)) = None \<and>
                 telegram w (Suc (length (trace r2))) = None \<and>
                 telegram w (Suc (Suc (length (trace r2)))) = None \<longrightarrow>
                   handle_callback_query w user_id data r =
                     (None, r2\<lparr>trace := trace r2 @
                                [SendPhoto img (b @ ''/'' @ t @ '' exchange rate over the past '' @ show_int n @
                     '' days.'' @ nl @ ''Use /graph to view a different graph.''), DeleteMessage, AnswerCallback]\<rparr>))))"
    by (rule conjI)
qed

theorem timeframe_uses_stored_pair_witness:
  "startswith ''timeframe_usd/jpy_30'' ''timeframe_'' \<and>
   split_on CHR ''_'' ''timeframe_usd/jpy_30'' = [''timeframe'', ''usd/jpy'', ''30''] \<and>
   py_int ''30'' = Some 30 \<and>
   user_data picked 1 = Some \<lparr>amount = None, graph_pair = Some ''GBP/EUR''\<rparr> \<and>
   startswith ''timeframe_eur/usd_30'' ''timeframe_'' \<and>
   split_on CHR ''_'' ''timeframe_eur/usd_30'' = [''timeframe'', ''eur/usd'', ''30''] \<and>
   handle_callback_query sample_world 1 ''timeframe_eur/usd_30'' picked =
     handle_callback_query sample_world 1 ''timeframe_usd/jpy_30'' picked \<and>
   split_pair ''GBP/EUR'' = Inr (''GBP'', ''EUR'') \<and>
   telegram sample_world (length (trace picked)) = None \<and>
   date_ago sample_world 0 = Inr ''2024-01-03'' \<and> date_ago sample_world 30 = Inr ''2024-01-03'' \<and>
   fst (handle_callback_query sample_world 1 ''timeframe_usd/jpy_30'' picked) = None \<and>
   trace (snd (handle_callback_query sample_world 1 ''timeframe_usd/jpy_30'' picked)) =
     [SendMessage (''Generating 30-day graph for GBP/EUR...'' @ nl @ ''This may take a moment.'') [],
      HttpGet ''https://api.fastforex.io/time-series?from=GBP&to=EUR&start=2024-01-03&end=2024-01-03&api_key=key'',
      SendPhoto
        \<lparr>xs = [''2024-01-01'', ''2024-01-02'', ''2024-01-03''],
         ys = [JNum (Fin (9 / 10)), JNum (Fin (23 / 25)), JNum (Fin (91 / 100))],
         title = ''GBP to EUR Exchange Rate'', ylabel = ''1 GBP = X EUR'',
         annotation = Some (''Current: 0.9100'', ''2024-01-03'')\<rparr>
        (''GBP/EUR exchange rate over the past 30 days.'' @ nl @
         ''Use /graph to view a different graph.''),
      DeleteMessage, AnswerCallback] \<and>
   user_data start 1 = None \<and>
   split_pair ''usd/eur'' = Inr (''USD'', ''EUR'') \<and>
   telegram sample_world (length (trace start)) = None \<and>
   (\<exists>rest. trace (snd (handle_callback_query sample_world 1 ''timeframe_usd/jpy_30'' start)) =
      SendMessage (''Generating 30-day graph for USD/JPY...'' @ nl @ ''This may take a moment.'') [] #
      HttpGet ''https://api.fastforex.io/time-series?from=USD&to=JPY&start=2024-01-03&end=2024-01-03&api_key=key'' #
      rest)"
proof -
  let ?notice = "SendMessage (''Generating '' @ show_int 30 @ ''-day graph for '' @ ''GBP'' @
                   ''/'' @ ''EUR'' @ ''...'' @ nl @ ''This may take a moment.'') []"
  let ?img = "\<lparr>xs = [''2024-01-01'', ''2024-01-02'', ''2024-01-03''],
         ys = [JNum (Fin (9 / 10)), JNum (Fin (23 / 25)), JNum (Fin (91 / 100))],
         title = ''GBP to EUR Exchange Rate'', ylabel = ''1 GBP = X EUR'',
         annotation = Some (''Current: 0.9100'', ''2024-01-03'')\<rparr>"
  let ?r2 = "snd (create_currency_graph sample_world ''GBP'' ''EUR'' 30 (emit ?notice picked))"
  have h1: "startswith ''timeframe_usd/jpy_30'' ''timeframe_''" by code_simp
  have h2: "split_on CHR ''_'' ''timeframe_usd/jpy_30'' = [''timeframe'', ''usd/jpy'', ''30'']"
    by code_simp
  have h3: "py_int ''30'' = Some 30" by code_simp
  have h4: "user_data picked 1 = Some \<lparr>amount = None, graph_pair = Some ''GBP/EUR''\<rparr>"
    by (simp add: picked_def)
  have gp: "graph_pair \<lparr>amount = None, graph_pair = Some ''GBP/EUR''\<rparr> = Some ''GBP/EUR''"
    by simp
  have h5: "startswith ''timeframe_eur/usd_30'' ''timeframe_''" by code_simp
  have h6: "split_on CHR ''_'' ''timeframe_eur/usd_30'' = [''timeframe'', ''eur/usd'', ''30'']"
    by code_simp
  have h7: "split_pair ''GBP/EUR'' = Inr (''GBP'', ''EUR'')" by code_simp
  have tg: "\<And>k. telegram sample_world k = None" by (simp add: sample_world_def)
  have d0: "date_ago sample_world 0 = Inr ''2024-01-03''"
    and d30: "date_ago sample_world 30 = Inr ''2024-01-03''"
    by (simp_all add: sample_world_def)
  have h8: "user_data start 1 = None" by (simp add: start_def)
  have h9: "split_pair ''usd/jpy'' = Inr (''USD'', ''JPY'')" by code_simp
  have h9': "split_pair ''usd/eur'' = Inr (''USD'', ''EUR'')" by code_simp
  have n: "show_int 30 = ''30''" by code_simp
  have tp: "trace picked = []" by (simp add: picked_def start_def)
  have ts: "trace start = []" by (simp add: start_def)
  have url: "time_series_url sample_world ''GBP'' ''EUR'' ''2024-01-03'' ''2024-01-03'' =
    ''https://api.fastforex.io/time-series?from=GBP&to=EUR&start=2024-01-03&end=2024-01-03&api_key=key''"
    "time_series_url sample_world ''USD'' ''JPY'' ''2024-01-03'' ''2024-01-03'' =
    ''https://api.fastforex.io/time-series?from=USD&to=JPY&start=2024-01-03&end=2024-01-03&api_key=key''"
    by code_simp+
  have g1: "fst (create_currency_graph sample_world ''GBP'' ''EUR'' 30 (emit ?notice picked)) =
              Inr ?img"
    by code_simp
  then have g: "create_currency_graph sample_world ''GBP'' ''EUR'' 30 (emit ?notice picked) =
                  (Inr ?img, ?r2)"
    by (metis prod.collapse)
  have g2: "trace ?r2 = [?notice, HttpGet (time_series_url sample_world ''GBP'' ''EUR''
                                              ''2024-01-03'' ''2024-01-03'')]"
    by code_simp
  note inst = timeframe_uses_stored_pair [where w = sample_world and user_id = 1
      and data = "''timeframe_usd/jpy_30''" and u = "''timeframe''" and q = "''usd/jpy''"
      and d = "''30''" and n = 30]
  note i1 = inst [where r = picked and s = "\<lparr>amount = None, graph_pair = Some ''GBP/EUR''\<rparr>"
      and p = "''GBP/EUR''" and c = "''GBP/EUR''" and b = "''GBP''" and t = "''EUR''"
      and data' = "''timeframe_eur/usd_30''" and u' = "''timeframe''" and q' = "''eur/usd''"
      and img = ?img and ?r2.0 = ?r2]
  from i1 h1 h2 h3 h4 gp h5 h6
  have c1: "handle_callback_query sample_world 1 ''timeframe_eur/usd_30'' picked =
     handle_callback_query sample_world 1 ''timeframe_usd/jpy_30'' picked"
    by blast
  from i1 h1 h2 h3 h4 gp h7 tg g
  have full: "handle_callback_query sample_world 1 ''timeframe_usd/jpy_30'' picked =
     (None, ?r2\<lparr>trace := trace ?r2 @
                [SendPhoto ?img (''GBP'' @ ''/'' @ ''EUR'' @ '' exchange rate over the past '' @
                                 show_int 30 @ '' days.'' @ nl @
                                 ''Use /graph to view a different graph.''),
                 DeleteMessage, AnswerCallback]\<rparr>)"
    by blast
  have c2: "fst (handle_callback_query sample_world 1 ''timeframe_usd/jpy_30'' picked) = None"
    unfolding full by simp
  have "trace (snd (handle_callback_query sample_world 1 ''timeframe_usd/jpy_30'' picked)) =
     trace ?r2 @
       [SendPhoto ?img (''GBP'' @ ''/'' @ ''EUR'' @ '' exchange rate over the past '' @
                        show_int 30 @ '' days.'' @ nl @
                        ''Use /graph to view a different graph.''),
        DeleteMessage, AnswerCallback]"
    unfolding full by simp
  note tr2 = this [unfolded g2]
  from tr2 have c3: "trace (snd (handle_callback_query sample_world 1 ''timeframe_usd/jpy_30'' picked)) =
     [SendMessage (''Generating 30-day graph for GBP/EUR...'' @ nl @ ''This may take a moment.'') [],
      HttpGet ''https://api.fastforex.io/time-series?from=GBP&to=EUR&start=2024-01-03&end=2024-01-03&api_key=key'',
      SendPhoto ?img
        (''GBP/EUR exchange rate over the past 30 days.'' @ nl @
         ''Use /graph to view a different graph.''),
      DeleteMessage, AnswerCallback]"
    by (simp add: n url)
  note i2 = inst [where r = start and c = "''usd/jpy''" and b = "''USD''" and t = "''JPY''"
      and e = "''2024-01-03''" and s' = "''2024-01-03''"]
  from i2 h1 h2 h3 h8 h9 tg d0 d30
  have "\<exists>rest. trace (snd (handle_callback_query sample_world 1 ''timeframe_usd/jpy_30'' start)) =
      trace start @
      SendMessage (''Generating '' @ show_int 30 @ ''-day graph for '' @ ''USD'' @ ''/'' @ ''JPY'' @
                   ''...'' @ nl @ ''This may take a moment.'') [] #
      HttpGet (time_series_url sample_world ''USD'' ''JPY'' ''2024-01-03'' ''2024-01-03'') # rest"
    by blast
  then have c4: "\<exists>rest. trace (snd (handle_callback_query sample_world 1 ''timeframe_usd/jpy_30'' start)) =
      SendMessage (''Generating 30-day graph for USD/JPY...'' @ nl @ ''This may take a moment.'') [] #
      HttpGet ''https://api.fastforex.io/time-series?from=USD&to=JPY&start=2024-01-03&end=2024-01-03&api_key=key'' #
      rest"
    by (simp add: ts n url)
  from h1 h2 h3 h4 h5 h6 c1 h7 tg d0 d30 c2 c3 h8 h9' c4 show ?thesis by blast
qed

end
